theory Spec2Isabelle
  imports Main "HOL-Library.AList"
begin

section \<open>JavaScript values\<close>

text \<open>
  The node handles untyped JSON-like data (\<open>IDataObject\<close>, \<open>unknown\<close>). Values are
  modelled by the datatype below. An object is an association list in property order;
  \<open>map_of\<close> reads a property, and a well-formed object has distinct keys. Numbers are
  the integers (every number the node touches is passed through unchanged or is a count of
  seconds or milliseconds). Functions are not values of the model, so no property ever
  holds a callable.
\<close>

datatype jsval =
    JUndefined
  | JNull
  | JBool bool
  | JNumber int
  | JString string
  | JArray "jsval list"
  | JObject "(string \<times> jsval) list"

type_synonym jsobj = "(string \<times> jsval) list"

text \<open>
  The errors the code can raise: the \<open>TypeError\<close> of the JavaScript runtime (property
  read on \<open>null\<close>/\<open>undefined\<close>, call of a non-function) and the
  \<open>NodeOperationError\<close> that the node constructs. \<open>NodeOperationError m i\<close> records
  the call \<open>new NodeOperationError(node, m, { itemIndex: i })\<close> with its arguments;
  what the constructed error shows as its message is the subject of \<open>shownMessage\<close>
  below.
\<close>

datatype error = TypeError | NodeOperationError jsval "nat option"

fun nullish :: "jsval \<Rightarrow> bool" where
  "nullish JUndefined = True"
| "nullish JNull = True"
| "nullish _ = False"

fun truthy :: "jsval \<Rightarrow> bool" where
  "truthy JUndefined = False"
| "truthy JNull = False"
| "truthy (JBool b) = b"
| "truthy (JNumber n) = (n \<noteq> 0)"
| "truthy (JString s) = (s \<noteq> [])"
| "truthy (JArray _) = True"
| "truthy (JObject _) = True"

fun is_string :: "jsval \<Rightarrow> bool" where
  "is_string (JString _) = True"
| "is_string _ = False"

text \<open>
  \<open>readProp v k\<close> is the read \<open>v.k\<close> on a value that is not \<open>null\<close>/\<open>undefined\<close>, for the
  property names this program reads (context, data, cause, response, description,
  message, detail, errors, title, outputs, type, url, number, name, content, status, id):
  none of them is an own or inherited property of a string, number, boolean or array, so
  only an object can answer with something other than \<open>undefined\<close>.
  \<open>getProp\<close> is the unguarded read, which raises on \<open>null\<close>/\<open>undefined\<close>;
  \<open>optProp\<close> is the optional chaining \<open>v?.k\<close>.
\<close>

fun readProp :: "jsval \<Rightarrow> string \<Rightarrow> jsval" where
  "readProp (JObject kvs) k = (case map_of kvs k of None \<Rightarrow> JUndefined | Some v \<Rightarrow> v)"
| "readProp _ k = JUndefined"

definition getProp :: "jsval \<Rightarrow> string \<Rightarrow> error + jsval" where
  "getProp v k = (if nullish v then Inl TypeError else Inr (readProp v k))"

definition optProp :: "jsval \<Rightarrow> string \<Rightarrow> jsval" where
  "optProp v k = (if nullish v then JUndefined else readProp v k)"

section \<open>Error Extractor\<close>

text \<open>
  \<open>extractFromBody\<close>: \<open>detail\<close> if it is a string; else, when \<open>errors\<close> is a non-empty
  array, the \<open>message\<close> of its first entry if that is a string (the read of
  \<open>first.message\<close> is unguarded); else \<open>title\<close> if it is a string; else \<open>undefined\<close>.
\<close>

definition extractFromBody :: "jsval \<Rightarrow> error + jsval" where
  "extractFromBody data =
    (case getProp data ''detail'' of
       Inl e \<Rightarrow> Inl e
     | Inr detail \<Rightarrow>
         if is_string detail then Inr detail
         else
           (case getProp data ''errors'' of
              Inl e \<Rightarrow> Inl e
            | Inr errors \<Rightarrow>
                (case (case errors of
                         JArray (first # _) \<Rightarrow>
                           (case getProp first ''message'' of
                              Inl e \<Rightarrow> Inl e
                            | Inr m \<Rightarrow> Inr (if is_string m then Some m else None))
                       | _ \<Rightarrow> Inr None) of
                   Inl e \<Rightarrow> Inl e
                 | Inr (Some m) \<Rightarrow> Inr m
                 | Inr None \<Rightarrow>
                     (case getProp data ''title'' of
                        Inl e \<Rightarrow> Inl e
                      | Inr title \<Rightarrow> Inr (if is_string title then title else JUndefined)))))"

text \<open>
  The two guarded blocks of \<open>extractApiErrorMessage\<close> have the same shape:
  \<open>if (data) { const msg = extractFromBody(data); if (msg) return msg; }\<close>.
  \<open>fromLocated data\<close> is \<open>Inr (Some msg)\<close> when the block returns, \<open>Inr None\<close> when
  control falls through, and \<open>Inl\<close> when \<open>extractFromBody\<close> raises.
\<close>

definition fromLocated :: "jsval \<Rightarrow> error + jsval option" where
  "fromLocated data =
    (if truthy data then
       (case extractFromBody data of
          Inl e \<Rightarrow> Inl e
        | Inr msg \<Rightarrow> Inr (if truthy msg then Some msg else None))
     else Inr None)"

definition extractApiErrorMessage :: "jsval \<Rightarrow> error + jsval" where
  "extractApiErrorMessage err =
    (case getProp err ''context'' of
       Inl e \<Rightarrow> Inl e
     | Inr context \<Rightarrow>
         (case fromLocated (optProp context ''data'') of
            Inl e \<Rightarrow> Inl e
          | Inr (Some msg) \<Rightarrow> Inr msg
          | Inr None \<Rightarrow>
              (case getProp err ''cause'' of
                 Inl e \<Rightarrow> Inl e
               | Inr cause \<Rightarrow>
                   (case fromLocated (optProp (optProp cause ''response'') ''data'') of
                      Inl e \<Rightarrow> Inl e
                    | Inr (Some msg) \<Rightarrow> Inr msg
                    | Inr None \<Rightarrow>
                        (case getProp err ''description'' of
                           Inl e \<Rightarrow> Inl e
                         | Inr description \<Rightarrow>
                             if is_string description then Inr description
                             else
                               (case getProp err ''message'' of
                                  Inl e \<Rightarrow> Inl e
                                | Inr message \<Rightarrow>
                                    Inr (if truthy message then message
                                         else JString ''Unknown API error'')))))))"

section \<open>Output Normalizer\<close>

definition INTERNAL_FIELDS :: "string set" where
  "INTERNAL_FIELDS = {''callbackUrl'', ''callbackStatus'', ''cancelRequestedAt'', ''templateId''}"

text \<open>
  \<open>outputs.find((o) => o.type === type)\<close> on the elements of an array: the callback reads
  \<open>o.type\<close> unguarded, so a \<open>null\<close>/\<open>undefined\<close> element met before a match raises;
  no match gives \<open>undefined\<close>.
\<close>

fun findType :: "string \<Rightarrow> jsval list \<Rightarrow> error + jsval" where
  "findType t [] = Inr JUndefined"
| "findType t (x # xs) =
    (case getProp x ''type'' of
       Inl e \<Rightarrow> Inl e
     | Inr ty \<Rightarrow> if ty = JString t then Inr x else findType t xs)"

text \<open>
  \<open>firstOfType\<close>: \<open>outputs\<close> is whatever the record holds (the cast to an array is
  erased at run time). Only an array has a \<open>find\<close> method; on any other value the call
  raises a \<open>TypeError\<close>.
\<close>

definition firstOfType :: "jsval \<Rightarrow> string \<Rightarrow> error + jsval" where
  "firstOfType outputs t =
    (case outputs of JArray xs \<Rightarrow> findType t xs | _ \<Rightarrow> Inl TypeError)"

text \<open>\<open>v ? { k1: v.k1, ... } : null\<close>\<close>

definition pick :: "jsval \<Rightarrow> string list \<Rightarrow> jsval" where
  "pick v ks = (if truthy v then JObject (map (\<lambda>k. (k, readProp v k)) ks) else JNull)"

definition flattenRunOutput :: "jsobj \<Rightarrow> error + jsobj" where
  "flattenRunOutput run =
    (let filtered = filter (\<lambda>(key, _). key \<notin> INTERNAL_FIELDS) run;
         outputs = (let v = readProp (JObject filtered) ''outputs''
                    in if nullish v then JArray [] else v)
     in case firstOfType outputs ''pr'' of
          Inl e \<Rightarrow> Inl e
        | Inr pr \<Rightarrow>
       (case firstOfType outputs ''issue'' of
          Inl e \<Rightarrow> Inl e
        | Inr issue \<Rightarrow>
       (case firstOfType outputs ''branch'' of
          Inl e \<Rightarrow> Inl e
        | Inr branch \<Rightarrow>
       (case firstOfType outputs ''text'' of
          Inl e \<Rightarrow> Inl e
        | Inr text \<Rightarrow>
            Inr (AList.update ''summary''
                   (let c = optProp text ''content'' in if nullish c then JNull else c)
                (AList.update ''branch'' (pick branch [''name''])
                (AList.update ''issue'' (pick issue [''url'', ''title'', ''number''])
                (AList.update ''pr'' (pick pr [''url'', ''title'', ''number''])
                   filtered))))))))"

section \<open>Rendering values in template literals\<close>

text \<open>
  \<open>`${v}`\<close> applies JavaScript's \<open>ToString\<close>. An integer prints in decimal (for
  magnitudes below \<open>10^21\<close>, which covers every timeout the node can be given).
\<close>

fun natToString :: "nat \<Rightarrow> string" where
  "natToString n =
    (if n < 10 then [''0123456789'' ! n]
     else natToString (n div 10) @ [''0123456789'' ! (n mod 10)])"

declare natToString.simps [simp del]

definition numberToString :: "int \<Rightarrow> string" where
  "numberToString i = (if i < 0 then CHR ''-'' # natToString (nat (- i)) else natToString (nat i))"

fun joinComma :: "string list \<Rightarrow> string" where
  "joinComma [] = []"
| "joinComma [s] = s"
| "joinComma (s # t # ss) = s @ '','' @ joinComma (t # ss)"

fun toStr :: "jsval \<Rightarrow> string" where
  "toStr JUndefined = ''undefined''"
| "toStr JNull = ''null''"
| "toStr (JBool b) = (if b then ''true'' else ''false'')"
| "toStr (JNumber n) = numberToString n"
| "toStr (JString s) = s"
| "toStr (JArray xs) = joinComma (map (\<lambda>x. if nullish x then [] else toStr x) xs)"
| "toStr (JObject kvs) = ''[object Object]''"

section \<open>The message of a NodeOperationError\<close>

text \<open>
  \<open>NodeOperationError\<close> belongs to the n8n-workflow library, which is not among the
  node's sources; this section follows the library's constructor as far as the message is
  concerned. Given a string, the constructor does not always keep it: through
  \<open>setDescriptiveErrorMessage\<close> it searches the upper-cased message for the codes of
  the library's table of common errors, in the order of the table, and at the first code
  found it replaces the message by the table's descriptive text for that code (the
  original moves to the error's \<open>messages\<close>). The node passes neither an error code
  nor a message mapping, so only this search applies. The descriptive texts are left
  abstract: \<open>Descriptive c\<close> stands for the table's text for the code \<open>c\<close>,
  \<open>Original m\<close> for the message kept as given. \<open>toUpperCase\<close> is JavaScript's on
  ASCII text (other characters are left alone here), \<open>stringIncludes s t\<close> is
  \<open>s.includes(t)\<close>.
\<close>

definition COMMON_ERROR_CODES :: "string list" where
  "COMMON_ERROR_CODES =
    [''ECONNREFUSED'', ''ECONNRESET'', ''ENOTFOUND'', ''ETIMEDOUT'', ''ERRADDRINUSE'',
     ''EADDRNOTAVAIL'', ''ECONNABORTED'', ''EHOSTUNREACH'', ''EAI_AGAIN'', ''ENOENT'',
     ''EISDIR'', ''ENOTDIR'', ''EACCES'', ''EEXIST'', ''EPERM'', ''GETADDRINFO'']"

definition upperChar :: "char \<Rightarrow> char" where
  "upperChar c =
    (case map_of (zip ''abcdefghijklmnopqrstuvwxyz'' ''ABCDEFGHIJKLMNOPQRSTUVWXYZ'') c of
       Some u \<Rightarrow> u
     | None \<Rightarrow> c)"

definition toUpperCase :: "string \<Rightarrow> string" where
  "toUpperCase s = map upperChar s"

fun startsWith :: "string \<Rightarrow> string \<Rightarrow> bool" where
  "startsWith s [] = True"
| "startsWith [] (c # t) = False"
| "startsWith (x # s) (c # t) = (x = c \<and> startsWith s t)"

fun stringIncludes :: "string \<Rightarrow> string \<Rightarrow> bool" where
  "stringIncludes [] t = (t = [])"
| "stringIncludes (x # s) t = (startsWith (x # s) t \<or> stringIncludes s t)"

datatype shown = Original string | Descriptive string

fun setDescriptiveErrorMessage :: "string list \<Rightarrow> string \<Rightarrow> shown" where
  "setDescriptiveErrorMessage [] message = Original message"
| "setDescriptiveErrorMessage (errorCode # rest) message =
    (if stringIncludes (toUpperCase message) (toUpperCase errorCode) then Descriptive errorCode
     else setDescriptiveErrorMessage rest message)"

definition shownMessage :: "string \<Rightarrow> shown" where
  "shownMessage message = setDescriptiveErrorMessage COMMON_ERROR_CODES message"

section \<open>Host: HTTP, clock and sleep\<close>

text \<open>
  The host supplies the authenticated HTTP call, the clock and \<open>sleep\<close>. They are made
  explicit: \<open>respond h n method path body\<close> is the outcome of the \<open>n\<close>-th call of
  \<open>httpRequestWithAuthentication\<close> (\<open>Inl\<close> the value it throws, \<open>Inr\<close> the parsed
  body, an object as the code types it), and \<open>elapsed h n\<close> is the time in
  milliseconds that the \<open>n\<close>-th host operation takes beyond its nominal duration (the
  requested time of a sleep, zero for a request). The world carries the clock (\<open>Date.now()\<close>), the number of HTTP calls made
  and the trace of host operations in order.
\<close>

datatype event = Sleep int | Request string string "jsobj option"

record host =
  respond :: "nat \<Rightarrow> string \<Rightarrow> string \<Rightarrow> jsobj option \<Rightarrow> jsval + jsobj"
  elapsed :: "nat \<Rightarrow> nat"

record world =
  clock :: int
  calls :: nat
  trace :: "event list"

definition sleep :: "host \<Rightarrow> int \<Rightarrow> world \<Rightarrow> world" where
  "sleep h ms w =
    w\<lparr>clock := clock w + ms + int (elapsed h (length (trace w))),
      trace := trace w @ [Sleep ms]\<rparr>"

section \<open>API Client\<close>

text \<open>
  \<open>cospecApiRequest\<close>: one authenticated call (the path is appended to the configured
  base URL); a thrown error is replaced by a \<open>NodeOperationError\<close> carrying the
  extracted message. An error raised inside the \<open>catch\<close> block by the extractor itself
  propagates as it is.
\<close>

definition cospecApiRequest ::
  "host \<Rightarrow> string \<Rightarrow> string \<Rightarrow> jsobj option \<Rightarrow> world \<Rightarrow> (error + jsobj) \<times> world" where
  "cospecApiRequest h method path body w =
    (let w' = w\<lparr>clock := clock w + int (elapsed h (length (trace w))),
                calls := Suc (calls w),
                trace := trace w @ [Request method path body]\<rparr>
     in case respond h (calls w) method path body of
          Inr response \<Rightarrow> (Inr response, w')
        | Inl err \<Rightarrow>
            (case extractApiErrorMessage err of
               Inl e \<Rightarrow> (Inl e, w')
             | Inr message \<Rightarrow> (Inl (NodeOperationError message None), w')))"

section \<open>Run Poller\<close>

definition POLL_INTERVAL_MS :: int where
  "POLL_INTERVAL_MS = 5000"

definition TIMEOUT_BUFFER_MS :: int where
  "TIMEOUT_BUFFER_MS = 60000"

definition DEFAULT_TIMEOUT_SECONDS :: int where
  "DEFAULT_TIMEOUT_SECONDS = 1800"

definition TERMINAL_STATUSES :: "jsval set" where
  "TERMINAL_STATUSES = {JString ''completed'', JString ''failed'', JString ''cancelled''}"

definition runPath :: "jsval \<Rightarrow> string" where
  "runPath runId = ''/v1/runs/'' @ toStr runId"

definition timeoutMessage :: "jsval \<Rightarrow> int \<Rightarrow> string" where
  "timeoutMessage runId timeoutSeconds =
    ''Run '' @ toStr runId @ '' did not complete within '' @ numberToString timeoutSeconds
      @ ''s timeout''"

text \<open>One pass of the loop body up to the status test: sleep, then GET.\<close>

definition pollOnce :: "host \<Rightarrow> jsval \<Rightarrow> world \<Rightarrow> (error + jsobj) \<times> world" where
  "pollOnce h runId w =
    cospecApiRequest h ''GET'' (runPath runId) None (sleep h POLL_INTERVAL_MS w)"

lemma clock_pollOnce: "clock w + 5000 \<le> clock (snd (pollOnce h runId w))"
  by (simp add: pollOnce_def cospecApiRequest_def sleep_def POLL_INTERVAL_MS_def Let_def
      split: sum.splits)

function pollLoop ::
  "host \<Rightarrow> jsval \<Rightarrow> int \<Rightarrow> nat \<Rightarrow> int \<Rightarrow> world \<Rightarrow> (error + jsobj) \<times> world" where
  "pollLoop h runId timeoutSeconds itemIndex deadline w =
    (if clock w < deadline then
       (case fst (pollOnce h runId w) of
          Inl e \<Rightarrow> (Inl e, snd (pollOnce h runId w))
        | Inr run \<Rightarrow>
            if readProp (JObject run) ''status'' \<in> TERMINAL_STATUSES
            then (flattenRunOutput run, snd (pollOnce h runId w))
            else pollLoop h runId timeoutSeconds itemIndex deadline (snd (pollOnce h runId w)))
     else (Inl (NodeOperationError (JString (timeoutMessage runId timeoutSeconds))
                 (Some itemIndex)), w))"
  by pat_completeness auto
termination
proof (relation "measure (\<lambda>(h, runId, timeoutSeconds, itemIndex, deadline, w).
                   nat (deadline - clock w))")
  show "wf (measure (\<lambda>(h :: host, runId :: jsval, timeoutSeconds :: int, itemIndex :: nat,
                       deadline :: int, w :: world). nat (deadline - clock w)))"
    by simp
next
  fix h :: host and runId :: jsval and timeoutSeconds :: int and itemIndex :: nat
    and deadline :: int and w :: world
  assume "clock w < deadline"
  with clock_pollOnce [of w h runId]
  show "((h, runId, timeoutSeconds, itemIndex, deadline, snd (pollOnce h runId w)),
         (h, runId, timeoutSeconds, itemIndex, deadline, w))
        \<in> measure (\<lambda>(h, runId, timeoutSeconds, itemIndex, deadline, w).
                   nat (deadline - clock w))"
    by simp
qed

declare pollLoop.simps [simp del]

definition pollUntilComplete ::
  "host \<Rightarrow> jsval \<Rightarrow> int \<Rightarrow> nat \<Rightarrow> world \<Rightarrow> (error + jsobj) \<times> world" where
  "pollUntilComplete h runId timeoutSeconds itemIndex w =
    pollLoop h runId timeoutSeconds itemIndex
      (clock w + timeoutSeconds * 1000 + TIMEOUT_BUFFER_MS) w"

section \<open>Operation handlers\<close>

text \<open>
  The node parameters are read through the host; they are passed here as arguments:
  the request body built from them, the \<open>waitForCompletion\<close> flag, and the guardrails'
  \<open>timeoutSeconds\<close> number (\<open>None\<close> when not set).
\<close>

definition getTimeoutSeconds :: "int option \<Rightarrow> int" where
  "getTimeoutSeconds guardrailTimeout =
    (case guardrailTimeout of
       None \<Rightarrow> DEFAULT_TIMEOUT_SECONDS
     | Some n \<Rightarrow> if n \<noteq> 0 then n else DEFAULT_TIMEOUT_SECONDS)"

definition createRun ::
  "host \<Rightarrow> jsobj \<Rightarrow> bool \<Rightarrow> int option \<Rightarrow> nat \<Rightarrow> world \<Rightarrow> (error + jsobj) \<times> world" where
  "createRun h body shouldWait guardrailTimeout itemIndex w =
    (case cospecApiRequest h ''POST'' ''/v1/runs'' (Some body) w of
       (Inl e, w') \<Rightarrow> (Inl e, w')
     | (Inr response, w') \<Rightarrow>
         if \<not> shouldWait then (Inr response, w')
         else pollUntilComplete h (readProp (JObject response) ''id'')
                (getTimeoutSeconds guardrailTimeout) itemIndex w')"

definition getRun :: "host \<Rightarrow> jsval \<Rightarrow> world \<Rightarrow> (error + jsobj) \<times> world" where
  "getRun h runId w =
    (case cospecApiRequest h ''GET'' (runPath runId) None w of
       (Inl e, w') \<Rightarrow> (Inl e, w')
     | (Inr run, w') \<Rightarrow> (flattenRunOutput run, w'))"

section \<open>Vocabulary for the statements\<close>

text \<open>
  \<open>hasType t x\<close>: the output record \<open>x\<close> carries the type tag \<open>t\<close>.
  \<open>outputRecords run\<close>: the outputs of a raw run as the data model describes them, the
  empty sequence when the field is absent, \<open>undefined\<close> or \<open>null\<close>, the elements of
  a list none of whose elements is \<open>null\<close>/\<open>undefined\<close>; \<open>None\<close> for any other
  value of the field.
\<close>

definition hasType :: "string \<Rightarrow> jsval \<Rightarrow> bool" where
  "hasType t x = (readProp x ''type'' = JString t)"

definition outputRecords :: "jsobj \<Rightarrow> jsval list option" where
  "outputRecords run =
    (case map_of run ''outputs'' of
       None \<Rightarrow> Some []
     | Some JUndefined \<Rightarrow> Some []
     | Some JNull \<Rightarrow> Some []
     | Some (JArray xs) \<Rightarrow> if list_all (\<lambda>x. \<not> nullish x) xs then Some xs else None
     | Some _ \<Rightarrow> None)"

text \<open>The three stages of \<open>flattenRunOutput\<close>, named for the proofs.\<close>

definition publicFields :: "jsobj \<Rightarrow> jsobj" where
  "publicFields run = filter (\<lambda>(key, _). key \<notin> INTERNAL_FIELDS) run"

definition outputsValue :: "jsobj \<Rightarrow> jsval" where
  "outputsValue run =
    (let v = readProp (JObject (publicFields run)) ''outputs''
     in if nullish v then JArray [] else v)"

definition assemble :: "jsobj \<Rightarrow> jsval \<Rightarrow> jsval \<Rightarrow> jsval \<Rightarrow> jsval \<Rightarrow> jsobj" where
  "assemble filtered pr issue branch text =
     AList.update ''summary''
       (let c = optProp text ''content'' in if nullish c then JNull else c)
     (AList.update ''branch'' (pick branch [''name''])
     (AList.update ''issue'' (pick issue [''url'', ''title'', ''number''])
     (AList.update ''pr'' (pick pr [''url'', ''title'', ''number'']) filtered)))"

text \<open>
  The priority order of the Error Extractor as the specification words it, on the same
  values. \<open>field v k\<close> is the field \<open>k\<close> of an object (no other value has fields),
  \<open>stringField\<close> a field that holds a string, \<open>firstErrorsEntry\<close> the first entry of
  a non-empty \<open>errors\<close> array. \<open>bodyMessage\<close> is the message of a located body:
  \<open>detail\<close>, else the \<open>message\<close> of the first \<open>errors\<close> entry, else \<open>title\<close>.
  \<open>contextBody\<close> and \<open>causeBody\<close> are the two places where a body is looked for
  (\<open>context.data\<close> and \<open>cause.response.data\<close>); a located body \<open>yields\<close> its message
  when that is not the empty string. \<open>priorityMessage\<close> is the whole order: context
  body, cause body, \<open>description\<close>, the error's own non-empty \<open>message\<close>, the literal.
\<close>

fun field :: "jsval \<Rightarrow> string \<Rightarrow> jsval option" where
  "field (JObject kvs) k = map_of kvs k"
| "field _ k = None"

definition stringField :: "jsval \<Rightarrow> string \<Rightarrow> string option" where
  "stringField v k = (case field v k of Some (JString s) \<Rightarrow> Some s | _ \<Rightarrow> None)"

definition firstErrorsEntry :: "jsval \<Rightarrow> jsval option" where
  "firstErrorsEntry body =
    (case field body ''errors'' of Some (JArray (first # _)) \<Rightarrow> Some first | _ \<Rightarrow> None)"

definition bodyMessage :: "jsval \<Rightarrow> string option" where
  "bodyMessage body =
    (case stringField body ''detail'' of
       Some d \<Rightarrow> Some d
     | None \<Rightarrow>
         (case (case firstErrorsEntry body of
                  Some first \<Rightarrow> stringField first ''message''
                | None \<Rightarrow> None) of
            Some m \<Rightarrow> Some m
          | None \<Rightarrow> stringField body ''title''))"

definition contextBody :: "jsval \<Rightarrow> jsval option" where
  "contextBody err = (case field err ''context'' of Some c \<Rightarrow> field c ''data'' | None \<Rightarrow> None)"

definition causeBody :: "jsval \<Rightarrow> jsval option" where
  "causeBody err =
    (case field err ''cause'' of
       Some c \<Rightarrow> (case field c ''response'' of Some r \<Rightarrow> field r ''data'' | None \<Rightarrow> None)
     | None \<Rightarrow> None)"

definition yields :: "jsval option \<Rightarrow> string option" where
  "yields located =
    (case located of
       None \<Rightarrow> None
     | Some body \<Rightarrow>
         (case bodyMessage body of Some m \<Rightarrow> if m = [] then None else Some m | None \<Rightarrow> None))"

definition priorityMessage :: "jsval \<Rightarrow> string" where
  "priorityMessage err =
    (case yields (contextBody err) of
       Some m \<Rightarrow> m
     | None \<Rightarrow>
    (case yields (causeBody err) of
       Some m \<Rightarrow> m
     | None \<Rightarrow>
    (case stringField err ''description'' of
       Some d \<Rightarrow> d
     | None \<Rightarrow>
    (case stringField err ''message'' of
       Some m \<Rightarrow> if m = [] then ''Unknown API error'' else m
     | None \<Rightarrow> ''Unknown API error''))))"

text \<open>
  The inputs the extractor's casts take for granted: \<open>entryPresent\<close>, the first
  \<open>errors\<close> entry of a located body is not \<open>null\<close>/\<open>undefined\<close>;
  \<open>messageTyped\<close>, the error's own \<open>message\<close> is a string when it is truthy.
\<close>

definition entryPresent :: "jsval option \<Rightarrow> bool" where
  "entryPresent located =
    (case located of
       None \<Rightarrow> True
     | Some body \<Rightarrow> (case firstErrorsEntry body of None \<Rightarrow> True | Some first \<Rightarrow> \<not> nullish first))"

definition messageTyped :: "jsval \<Rightarrow> bool" where
  "messageTyped err =
    (case field err ''message'' of None \<Rightarrow> True | Some m \<Rightarrow> is_string m \<or> \<not> truthy m)"

text \<open>
  For the poller: \<open>apiOutcome\<close> is what \<open>cospecApiRequest\<close> makes of the outcome of
  the HTTP call. \<open>checkTime h w j\<close> is the clock at the \<open>j\<close>-th test of the loop
  condition of a poll started in world \<open>w\<close> (after \<open>j\<close> rounds of sleep and GET),
  \<open>afterRounds h runId w j\<close> the world at that moment, and \<open>pending h runId w i\<close>
  says that the \<open>i\<close>-th GET of the poll succeeds with a status outside the terminal set.
\<close>

definition apiOutcome :: "jsval + jsobj \<Rightarrow> error + jsobj" where
  "apiOutcome r =
    (case r of
       Inr response \<Rightarrow> Inr response
     | Inl err \<Rightarrow>
         (case extractApiErrorMessage err of
            Inl e \<Rightarrow> Inl e
          | Inr message \<Rightarrow> Inl (NodeOperationError message None)))"

definition checkTime :: "host \<Rightarrow> world \<Rightarrow> nat \<Rightarrow> int" where
  "checkTime h w j =
    clock w + 5000 * int j + int (\<Sum>i<2 * j. elapsed h (length (trace w) + i))"

definition afterRounds :: "host \<Rightarrow> jsval \<Rightarrow> world \<Rightarrow> nat \<Rightarrow> world" where
  "afterRounds h runId w j =
    \<lparr>clock = checkTime h w j,
     calls = calls w + j,
     trace = trace w @ concat (replicate j [Sleep 5000, Request ''GET'' (runPath runId) None])\<rparr>"

definition pending :: "host \<Rightarrow> jsval \<Rightarrow> world \<Rightarrow> nat \<Rightarrow> bool" where
  "pending h runId w i =
    (case respond h (calls w + i) ''GET'' (runPath runId) None of
       Inl err \<Rightarrow> False
     | Inr run \<Rightarrow> readProp (JObject run) ''status'' \<notin> TERMINAL_STATUSES)"

text \<open>
  For the timeout message: \<open>decimalValue s\<close> reads \<open>s\<close> as a decimal numeral, an
  optional minus sign and digits with no leading zero (and no \<open>-0\<close>), so that a
  string has the value \<open>n\<close> exactly when it is the decimal numeral of \<open>n\<close>;
  \<open>asciiText\<close> says that a string has ASCII characters only.
\<close>

definition digitValue :: "char \<Rightarrow> nat option" where
  "digitValue c = map_of (zip ''0123456789'' [0, 1, 2, 3, 4, 5, 6, 7, 8, 9]) c"

fun digitsValue :: "string \<Rightarrow> nat \<Rightarrow> nat option" where
  "digitsValue [] acc = Some acc"
| "digitsValue (c # cs) acc =
    (case digitValue c of None \<Rightarrow> None | Some d \<Rightarrow> digitsValue cs (10 * acc + d))"

definition naturalValue :: "string \<Rightarrow> nat option" where
  "naturalValue s =
    (if s = [] \<or> (1 < length s \<and> hd s = CHR ''0'') then None else digitsValue s 0)"

definition decimalValue :: "string \<Rightarrow> int option" where
  "decimalValue s =
    (if s \<noteq> [] \<and> hd s = CHR ''-'' then
       (case naturalValue (tl s) of
          None \<Rightarrow> None
        | Some n \<Rightarrow> if n = 0 then None else Some (- int n))
     else map_option int (naturalValue s))"

definition asciiText :: "string \<Rightarrow> bool" where
  "asciiText s = list_all (\<lambda>c. \<not> digit7 c) s"

text \<open>
  Hosts for the examples: one that answers the \<open>n\<close>-th request with a run whose status
  is the \<open>n\<close>-th of a list (\<open>running\<close> afterwards), and one whose second request
  fails with a problem body; both answer at once and never oversleep.
\<close>

definition hostOfStatuses :: "string list \<Rightarrow> host" where
  "hostOfStatuses statuses =
    \<lparr>respond = (\<lambda>n method path body.
        Inr [(''id'', JString ''run_1''),
             (''status'', JString (if n < length statuses then statuses ! n else ''running'')),
             (''templateId'', JString ''tpl_1'')]),
     elapsed = (\<lambda>n. 0)\<rparr>"

definition world0 :: world where
  "world0 = \<lparr>clock = 0, calls = 0, trace = []\<rparr>"

definition hostFailingSecond :: host where
  "hostFailingSecond =
    \<lparr>respond = (\<lambda>n method path body.
        if n = 1 then
          Inl (JObject [(''message'', JString ''The resource you are requesting could not be found''),
                        (''context'', JObject [(''data'', JObject
                           [(''title'', JString ''Not Found''),
                            (''detail'', JString ''Run run_1 not found'')])])])
        else Inr [(''id'', JString ''run_1''),
                  (''status'', JString (if n = 0 then ''running'' else ''completed''))]),
     elapsed = (\<lambda>n. 0)\<rparr>"

section \<open>Properties of the Error Extractor\<close>

lemma readProp_field: "readProp v k = (case field v k of None \<Rightarrow> JUndefined | Some x \<Rightarrow> x)"
  by (cases v) simp_all

lemma field_nullish [simp]: "nullish v \<Longrightarrow> field v k = None"
  by (cases v) simp_all

lemma optProp_field: "optProp v k = (case field v k of None \<Rightarrow> JUndefined | Some x \<Rightarrow> x)"
  by (simp add: optProp_def readProp_field)

lemma stringField_readProp:
  "stringField v k = (case readProp v k of JString s \<Rightarrow> Some s | _ \<Rightarrow> None)"
  by (auto simp: readProp_field stringField_def split: option.splits jsval.splits)

lemma firstErrorsEntry_readProp:
  "firstErrorsEntry v =
    (case readProp v ''errors'' of JArray (first # _) \<Rightarrow> Some first | _ \<Rightarrow> None)"
  by (auto simp: readProp_field firstErrorsEntry_def split: option.splits jsval.splits list.splits)

lemma extractFromBody_bodyMessage:
  assumes "\<not> nullish data" and "entryPresent (Some data)"
  shows "extractFromBody data =
     Inr (case bodyMessage data of Some m \<Rightarrow> JString m | None \<Rightarrow> JUndefined)"
proof -
  have title: "(if is_string (readProp data ''title'') then readProp data ''title'' else JUndefined)
      = (case stringField data ''title'' of Some m \<Rightarrow> JString m | None \<Rightarrow> JUndefined)"
    unfolding stringField_readProp by (cases "readProp data ''title''") simp_all
  have msg: "getProp first ''message'' = Inr (readProp first ''message'')
     \<and> (if is_string (readProp first ''message'') then Some (readProp first ''message'') else None)
       = map_option JString (stringField first ''message'')"
    if "firstErrorsEntry data = Some first" for first
  proof -
    from that assms(2) have "\<not> nullish first" by (simp add: entryPresent_def)
    then show ?thesis
      unfolding stringField_readProp getProp_def
      by (cases "readProp first ''message''") simp_all
  qed
  have errs: "(case readProp data ''errors'' of
                  JArray (first # _) \<Rightarrow>
                    (case getProp first ''message'' of
                       Inl e \<Rightarrow> Inl e
                     | Inr m \<Rightarrow> Inr (if is_string m then Some m else None))
                | _ \<Rightarrow> Inr None)
      = Inr (map_option JString (case firstErrorsEntry data of
                  Some first \<Rightarrow> stringField first ''message''
                | None \<Rightarrow> None))"
  proof (cases "firstErrorsEntry data")
    case None
    then show ?thesis
      unfolding firstErrorsEntry_readProp
      by (simp split: jsval.splits list.splits)
  next
    case (Some first)
    from msg [OF Some] Some show ?thesis
      unfolding firstErrorsEntry_readProp
      by (simp split: jsval.splits list.splits)
  qed
  have g: "getProp data k = Inr (readProp data k)" for k
    using assms(1) by (simp add: getProp_def)
  show ?thesis
  proof (cases "stringField data ''detail''")
    case (Some d)
    then have "readProp data ''detail'' = JString d"
      unfolding stringField_readProp by (simp split: jsval.splits)
    with Some show ?thesis
      by (simp add: extractFromBody_def g bodyMessage_def)
  next
    case None
    then have "\<not> is_string (readProp data ''detail'')"
      unfolding stringField_readProp by (simp split: jsval.splits)
    with None show ?thesis
      unfolding extractFromBody_def bodyMessage_def
      by (simp add: g errs title split: option.splits)
  qed
qed

lemma bodyMessage_falsy: "\<not> truthy b \<Longrightarrow> bodyMessage b = None"
  by (cases b) (simp_all add: bodyMessage_def stringField_def firstErrorsEntry_def)

lemma fromLocated_yields:
  assumes "entryPresent located"
  shows "fromLocated (case located of None \<Rightarrow> JUndefined | Some b \<Rightarrow> b)
     = Inr (map_option JString (yields located))"
proof (cases located)
  case None
  then show ?thesis by (simp add: fromLocated_def yields_def)
next
  case (Some b)
  show ?thesis
  proof (cases "truthy b")
    case False
    with Some show ?thesis
      by (simp add: fromLocated_def yields_def bodyMessage_falsy)
  next
    case True
    then have "\<not> nullish b" by (cases b) simp_all
    from extractFromBody_bodyMessage [OF this] assms Some True show ?thesis
      by (simp add: fromLocated_def yields_def split: option.splits)
  qed
qed

lemma located_context:
  "optProp (readProp err ''context'') ''data''
     = (case contextBody err of None \<Rightarrow> JUndefined | Some b \<Rightarrow> b)"
  by (simp add: optProp_field readProp_field contextBody_def split: option.splits)

lemma located_cause:
  "optProp (optProp (readProp err ''cause'') ''response'') ''data''
     = (case causeBody err of None \<Rightarrow> JUndefined | Some b \<Rightarrow> b)"
  by (simp add: optProp_field readProp_field causeBody_def split: option.splits)

lemma own_message:
  assumes "messageTyped err"
  shows "(if truthy (readProp err ''message'') then readProp err ''message''
          else JString ''Unknown API error'')
     = JString (case stringField err ''message'' of
          Some m \<Rightarrow> if m = [] then ''Unknown API error'' else m
        | None \<Rightarrow> ''Unknown API error'')"
proof (cases "field err ''message''")
  case None
  then show ?thesis by (simp add: readProp_field stringField_def)
next
  case (Some m)
  with assms have "is_string m \<or> \<not> truthy m" by (simp add: messageTyped_def)
  with Some show ?thesis
    by (cases m) (simp_all add: readProp_field stringField_def)
qed

text \<open>
  C1, amended. For every error value other than \<open>null\<close>/\<open>undefined\<close>, whose located
  bodies have no \<open>null\<close>/\<open>undefined\<close> first \<open>errors\<close> entry and whose own
  \<open>message\<close> is a string when truthy, the extractor does not fail and returns the string
  chosen by the priority order: the message yielded by the body on the context data, else
  by the body under the transport cause (within a body \<open>detail\<close>, else the \<open>message\<close>
  of the first \<open>errors\<close> entry, else \<open>title\<close>; an empty string yields nothing), else a
  \<open>description\<close> string, else the error's own non-empty message, else
  \<open>Unknown API error\<close>.
\<close>

theorem extractApiErrorMessage_priority:
  assumes "\<not> nullish err"
    and "entryPresent (contextBody err)"
    and "entryPresent (causeBody err)"
    and "messageTyped err"
  shows "extractApiErrorMessage err = Inr (JString (priorityMessage err))"
proof -
  have g: "getProp err k = Inr (readProp err k)" for k
    using assms(1) by (simp add: getProp_def)
  have d: "readProp err ''description'' = JString s" if "stringField err ''description'' = Some s" for s
    using that unfolding stringField_readProp by (simp split: jsval.splits)
  have nd: "\<not> is_string (readProp err ''description'')" if "stringField err ''description'' = None"
    using that unfolding stringField_readProp by (simp split: jsval.splits)
  show ?thesis
    unfolding extractApiErrorMessage_def priorityMessage_def
    by (simp add: g located_context located_cause fromLocated_yields [OF assms(2)]
        fromLocated_yields [OF assms(3)] own_message [OF assms(4)] d nd
        split: option.splits)
qed

text \<open>
  C1 as stated does not hold. A problem body whose \<open>errors\<close> array starts with
  \<open>null\<close> makes the extractor raise a \<open>TypeError\<close> at \<open>first.message\<close>; and a body
  whose \<open>detail\<close> is the empty string is passed over altogether (its \<open>title\<close> too),
  so the generic message of the error is returned.
\<close>

theorem extractApiErrorMessage_fails_or_skips:
  "extractApiErrorMessage
     (JObject [(''message'', JString ''Bad request - please check your parameters''),
               (''context'', JObject [(''data'', JObject
                  [(''title'', JString ''Validation failed''), (''errors'', JArray [JNull])])])])
   = Inl TypeError
   \<and> extractApiErrorMessage
     (JObject [(''message'', JString ''Bad request - please check your parameters''),
               (''context'', JObject [(''data'', JObject
                  [(''title'', JString ''Validation failed''), (''detail'', JString [])])])])
   = Inr (JString ''Bad request - please check your parameters'')"
  by (simp add: extractApiErrorMessage_def fromLocated_def extractFromBody_def getProp_def
      optProp_def)

text \<open>
  The cases of the specification: all three fields present gives \<open>detail\<close>; only
  \<open>errors\<close> and \<open>title\<close>, under the cause, gives the entry's message; no body but a
  description gives the description; nothing at all gives the literal.
\<close>

theorem extractApiErrorMessage_priority_examples:
  "extractApiErrorMessage
     (JObject [(''message'', JString ''Bad request - please check your parameters''),
               (''context'', JObject [(''data'', JObject
                  [(''title'', JString ''Y''), (''detail'', JString ''D''),
                   (''errors'', JArray [JObject [(''message'', JString ''X'')]])])])])
   = Inr (JString ''D'')
   \<and> extractApiErrorMessage
     (JObject [(''message'', JString ''Bad request - please check your parameters''),
               (''cause'', JObject [(''response'', JObject [(''data'', JObject
                  [(''title'', JString ''Y''),
                   (''errors'', JArray [JObject [(''message'', JString ''X'')]])])])])])
   = Inr (JString ''X'')
   \<and> extractApiErrorMessage
     (JObject [(''description'', JString ''Connection refused''),
               (''message'', JString ''Bad request - please check your parameters'')])
   = Inr (JString ''Connection refused'')
   \<and> extractApiErrorMessage (JObject []) = Inr (JString ''Unknown API error'')"
proof -
  let ?e1 = "JObject [(''message'', JString ''Bad request - please check your parameters''),
               (''context'', JObject [(''data'', JObject
                  [(''title'', JString ''Y''), (''detail'', JString ''D''),
                   (''errors'', JArray [JObject [(''message'', JString ''X'')]])])])]"
  let ?e2 = "JObject [(''message'', JString ''Bad request - please check your parameters''),
               (''cause'', JObject [(''response'', JObject [(''data'', JObject
                  [(''title'', JString ''Y''),
                   (''errors'', JArray [JObject [(''message'', JString ''X'')]])])])])]"
  let ?e3 = "JObject [(''description'', JString ''Connection refused''),
               (''message'', JString ''Bad request - please check your parameters'')]"
  have h1: "\<not> nullish ?e1" "entryPresent (contextBody ?e1)" "entryPresent (causeBody ?e1)"
      "messageTyped ?e1"
    by (simp_all add: entryPresent_def contextBody_def causeBody_def messageTyped_def
        firstErrorsEntry_def)
  have h2: "\<not> nullish ?e2" "entryPresent (contextBody ?e2)" "entryPresent (causeBody ?e2)"
      "messageTyped ?e2"
    by (simp_all add: entryPresent_def contextBody_def causeBody_def messageTyped_def
        firstErrorsEntry_def)
  have h3: "\<not> nullish ?e3" "entryPresent (contextBody ?e3)" "entryPresent (causeBody ?e3)"
      "messageTyped ?e3"
    by (simp_all add: entryPresent_def contextBody_def causeBody_def messageTyped_def)
  have h4: "\<not> nullish (JObject [])" "entryPresent (contextBody (JObject []))"
      "entryPresent (causeBody (JObject []))" "messageTyped (JObject [])"
    by (simp_all add: entryPresent_def contextBody_def causeBody_def messageTyped_def)
  have p1: "priorityMessage ?e1 = ''D''"
    by (simp add: priorityMessage_def yields_def contextBody_def bodyMessage_def stringField_def)
  have p2: "priorityMessage ?e2 = ''X''"
    by (simp add: priorityMessage_def yields_def contextBody_def causeBody_def bodyMessage_def
        stringField_def firstErrorsEntry_def)
  have p3: "priorityMessage ?e3 = ''Connection refused''"
    by (simp add: priorityMessage_def yields_def contextBody_def causeBody_def stringField_def)
  have p4: "priorityMessage (JObject []) = ''Unknown API error''"
    by (simp add: priorityMessage_def yields_def contextBody_def causeBody_def stringField_def)
  from extractApiErrorMessage_priority [OF h1] extractApiErrorMessage_priority [OF h2]
    extractApiErrorMessage_priority [OF h3] extractApiErrorMessage_priority [OF h4]
  show ?thesis
    by (simp only: p1 p2 p3 p4)
qed

section \<open>Properties of the Output Normalizer\<close>

lemma flattenRunOutput_alt:
  "flattenRunOutput run =
    (case firstOfType (outputsValue run) ''pr'' of
       Inl e \<Rightarrow> Inl e
     | Inr pr \<Rightarrow>
    (case firstOfType (outputsValue run) ''issue'' of
       Inl e \<Rightarrow> Inl e
     | Inr issue \<Rightarrow>
    (case firstOfType (outputsValue run) ''branch'' of
       Inl e \<Rightarrow> Inl e
     | Inr branch \<Rightarrow>
    (case firstOfType (outputsValue run) ''text'' of
       Inl e \<Rightarrow> Inl e
     | Inr text \<Rightarrow> Inr (assemble (publicFields run) pr issue branch text)))))"
  unfolding flattenRunOutput_def outputsValue_def publicFields_def assemble_def Let_def
  by (rule refl)

lemma flattenRunOutput_Inr:
  "flattenRunOutput run = Inr out \<longleftrightarrow>
    (\<exists>pr issue branch text.
       firstOfType (outputsValue run) ''pr'' = Inr pr \<and>
       firstOfType (outputsValue run) ''issue'' = Inr issue \<and>
       firstOfType (outputsValue run) ''branch'' = Inr branch \<and>
       firstOfType (outputsValue run) ''text'' = Inr text \<and>
       out = assemble (publicFields run) pr issue branch text)"
  unfolding flattenRunOutput_alt
  by (cases "firstOfType (outputsValue run) ''pr''";
      cases "firstOfType (outputsValue run) ''issue''";
      cases "firstOfType (outputsValue run) ''branch''";
      cases "firstOfType (outputsValue run) ''text''"; simp; blast)

lemma map_of_publicFields:
  "map_of (publicFields run) k = (if k \<in> INTERNAL_FIELDS then None else map_of run k)"
  unfolding publicFields_def by (induction run) auto

lemma keys_publicFields:
  "fst ` set (publicFields run) = fst ` set run - INTERNAL_FIELDS"
  unfolding publicFields_def by force

lemma map_of_assemble:
  "map_of (assemble f pr issue branch text) k =
    (if k = ''summary'' then Some (let c = optProp text ''content'' in if nullish c then JNull else c)
     else if k = ''branch'' then Some (pick branch [''name''])
     else if k = ''issue'' then Some (pick issue [''url'', ''title'', ''number''])
     else if k = ''pr'' then Some (pick pr [''url'', ''title'', ''number''])
     else map_of f k)"
  unfolding assemble_def by (simp add: update_conv')

lemma keys_assemble:
  "fst ` set (assemble f pr issue branch text) =
     {''summary'', ''branch'', ''issue'', ''pr''} \<union> fst ` set f"
  unfolding assemble_def by (simp add: dom_update insert_commute)

lemma findType_find:
  "list_all (\<lambda>x. \<not> nullish x) xs \<Longrightarrow>
   findType t xs = Inr (case find (hasType t) xs of None \<Rightarrow> JUndefined | Some x \<Rightarrow> x)"
  by (induction xs) (auto simp: getProp_def hasType_def)

lemma hasType_truthy: "hasType t x \<Longrightarrow> truthy x \<and> \<not> nullish x"
  by (cases x) (auto simp: hasType_def)

lemma outputsValue_records:
  "outputRecords run = Some xs \<Longrightarrow> outputsValue run = JArray xs"
  unfolding outputRecords_def outputsValue_def
  by (auto simp: map_of_publicFields INTERNAL_FIELDS_def Let_def
      split: option.splits jsval.splits if_splits)

text \<open>
  C4. For a raw run whose \<open>outputs\<close> is absent or a list of records, the normalizer
  returns a record whose \<open>pr\<close>, \<open>issue\<close>, \<open>branch\<close> and \<open>summary\<close> fields are
  computed from the first element of \<open>outputs\<close> with type \<open>pr\<close>, \<open>issue\<close>,
  \<open>branch\<close> and \<open>text\<close> respectively (\<open>find\<close> returns the first match, so later
  records of the same type are ignored): \<open>{url, title, number}\<close>, \<open>{url, title, number}\<close>,
  \<open>{name}\<close> and the content; each is \<open>null\<close> when no element has the type.
\<close>

theorem flattenRunOutput_derived_fields:
  assumes "outputRecords run = Some xs"
  shows "\<exists>out. flattenRunOutput run = Inr out
    \<and> map_of out ''pr'' = Some (case find (hasType ''pr'') xs of
          None \<Rightarrow> JNull
        | Some p \<Rightarrow> JObject [(''url'', readProp p ''url''), (''title'', readProp p ''title''),
                             (''number'', readProp p ''number'')])
    \<and> map_of out ''issue'' = Some (case find (hasType ''issue'') xs of
          None \<Rightarrow> JNull
        | Some i \<Rightarrow> JObject [(''url'', readProp i ''url''), (''title'', readProp i ''title''),
                             (''number'', readProp i ''number'')])
    \<and> map_of out ''branch'' = Some (case find (hasType ''branch'') xs of
          None \<Rightarrow> JNull
        | Some b \<Rightarrow> JObject [(''name'', readProp b ''name'')])
    \<and> map_of out ''summary'' = Some (case find (hasType ''text'') xs of
          None \<Rightarrow> JNull
        | Some t \<Rightarrow> if nullish (readProp t ''content'') then JNull
                     else readProp t ''content'')"
proof -
  have ok: "list_all (\<lambda>x. \<not> nullish x) xs"
    using assms unfolding outputRecords_def
    by (auto split: option.splits jsval.splits if_splits)
  have ov: "outputsValue run = JArray xs"
    using assms by (rule outputsValue_records)
  define sel where "sel t = (case find (hasType t) xs of None \<Rightarrow> JUndefined | Some x \<Rightarrow> x)" for t
  have first: "firstOfType (outputsValue run) t = Inr (sel t)" for t
    unfolding ov firstOfType_def sel_def using findType_find [OF ok] by simp
  have flat: "flattenRunOutput run =
      Inr (assemble (publicFields run) (sel ''pr'') (sel ''issue'') (sel ''branch'') (sel ''text''))"
    unfolding flattenRunOutput_Inr using first by blast
  have pk: "pick (sel t) ks = (case find (hasType t) xs of
          None \<Rightarrow> JNull | Some p \<Rightarrow> JObject (map (\<lambda>k. (k, readProp p k)) ks))" for t ks
  proof (cases "find (hasType t) xs")
    case None
    then show ?thesis by (simp add: sel_def pick_def)
  next
    case (Some p)
    then have "hasType t p" by (auto simp: find_Some_iff)
    then have "truthy p" by (simp add: hasType_truthy)
    with Some show ?thesis by (simp add: sel_def pick_def)
  qed
  have sm: "(let c = optProp (sel ''text'') ''content'' in if nullish c then JNull else c) =
      (case find (hasType ''text'') xs of
          None \<Rightarrow> JNull
        | Some t \<Rightarrow> if nullish (readProp t ''content'') then JNull else readProp t ''content'')"
  proof (cases "find (hasType ''text'') xs")
    case None
    then show ?thesis by (simp add: sel_def optProp_def)
  next
    case (Some p)
    then have "hasType ''text'' p" by (auto simp: find_Some_iff)
    then have "\<not> nullish p" by (simp add: hasType_truthy)
    with Some show ?thesis by (simp add: sel_def optProp_def)
  qed
  show ?thesis
    unfolding flat
    by (simp add: map_of_assemble pk sm split: option.splits)
qed

text \<open>
  The example of the specification, with a second \<open>pr\<close> record added after the first:
  the later one is ignored.
\<close>

theorem flattenRunOutput_derived_fields_example:
  "outputRecords
     [(''id'', JString ''r1''),
      (''outputs'', JArray
         [JObject [(''type'', JString ''pr''), (''url'', JString ''u''),
                   (''title'', JString ''t''), (''number'', JNumber 1)],
          JObject [(''type'', JString ''text''), (''content'', JString ''s'')],
          JObject [(''type'', JString ''pr''), (''url'', JString ''later'')]])]
   = Some
         [JObject [(''type'', JString ''pr''), (''url'', JString ''u''),
                   (''title'', JString ''t''), (''number'', JNumber 1)],
          JObject [(''type'', JString ''text''), (''content'', JString ''s'')],
          JObject [(''type'', JString ''pr''), (''url'', JString ''later'')]]
   \<and> (\<exists>out. flattenRunOutput
     [(''id'', JString ''r1''),
      (''outputs'', JArray
         [JObject [(''type'', JString ''pr''), (''url'', JString ''u''),
                   (''title'', JString ''t''), (''number'', JNumber 1)],
          JObject [(''type'', JString ''text''), (''content'', JString ''s'')],
          JObject [(''type'', JString ''pr''), (''url'', JString ''later'')]])] = Inr out
     \<and> map_of out ''pr'' = Some (JObject [(''url'', JString ''u''), (''title'', JString ''t''),
                                            (''number'', JNumber 1)])
     \<and> map_of out ''issue'' = Some JNull
     \<and> map_of out ''branch'' = Some JNull
     \<and> map_of out ''summary'' = Some (JString ''s''))"
proof -
  have rec: "outputRecords
     [(''id'', JString ''r1''),
      (''outputs'', JArray
         [JObject [(''type'', JString ''pr''), (''url'', JString ''u''),
                   (''title'', JString ''t''), (''number'', JNumber 1)],
          JObject [(''type'', JString ''text''), (''content'', JString ''s'')],
          JObject [(''type'', JString ''pr''), (''url'', JString ''later'')]])]
   = Some
         [JObject [(''type'', JString ''pr''), (''url'', JString ''u''),
                   (''title'', JString ''t''), (''number'', JNumber 1)],
          JObject [(''type'', JString ''text''), (''content'', JString ''s'')],
          JObject [(''type'', JString ''pr''), (''url'', JString ''later'')]]"
    by (simp add: outputRecords_def)
  show ?thesis
    using rec flattenRunOutput_derived_fields [OF rec]
    by (simp add: hasType_def)
qed

text \<open>
  C5. Whatever the input record holds, none of the four internal field names
  \<open>callbackUrl\<close>, \<open>callbackStatus\<close>, \<open>cancelRequestedAt\<close>, \<open>templateId\<close> is a key
  of the record the normalizer returns.
\<close>

theorem flattenRunOutput_no_internal_fields:
  assumes "flattenRunOutput run = Inr out"
  shows "''callbackUrl'' \<notin> fst ` set out \<and> ''callbackStatus'' \<notin> fst ` set out
    \<and> ''cancelRequestedAt'' \<notin> fst ` set out \<and> ''templateId'' \<notin> fst ` set out"
proof -
  from assms obtain pr issue branch tx
    where out: "out = assemble (publicFields run) pr issue branch tx"
    unfolding flattenRunOutput_Inr by blast
  show ?thesis
    unfolding out keys_assemble keys_publicFields
    by (simp add: INTERNAL_FIELDS_def)
qed

text \<open>
  A run that carries all four internal fields: they are gone from the result.
\<close>

theorem flattenRunOutput_no_internal_fields_example:
  "flattenRunOutput
     [(''id'', JString ''r1''), (''callbackUrl'', JString ''https://hook''),
      (''callbackStatus'', JNull), (''cancelRequestedAt'', JNull),
      (''templateId'', JString ''tpl_1''), (''status'', JString ''completed'')]
   = Inr [(''id'', JString ''r1''), (''status'', JString ''completed''), (''pr'', JNull),
          (''issue'', JNull), (''branch'', JNull), (''summary'', JNull)]
   \<and> ''callbackUrl'' \<notin> fst ` set [(''id'', JString ''r1''), (''status'', JString ''completed''),
            (''pr'', JNull), (''issue'', JNull), (''branch'', JNull), (''summary'', JNull)]
   \<and> ''templateId'' \<notin> fst ` set [(''id'', JString ''r1''), (''status'', JString ''completed''),
            (''pr'', JNull), (''issue'', JNull), (''branch'', JNull), (''summary'', JNull)]"
proof -
  have run: "flattenRunOutput
     [(''id'', JString ''r1''), (''callbackUrl'', JString ''https://hook''),
      (''callbackStatus'', JNull), (''cancelRequestedAt'', JNull),
      (''templateId'', JString ''tpl_1''), (''status'', JString ''completed'')]
   = Inr [(''id'', JString ''r1''), (''status'', JString ''completed''), (''pr'', JNull),
          (''issue'', JNull), (''branch'', JNull), (''summary'', JNull)]"
    by (simp add: flattenRunOutput_def INTERNAL_FIELDS_def firstOfType_def pick_def
        optProp_def)
  from flattenRunOutput_no_internal_fields [OF run] run show ?thesis
    by blast
qed

text \<open>
  C7 as stated does not hold: \<open>outputs ?? []\<close> covers only an absent or \<open>null\<close>
  field. A record whose \<open>outputs\<close> is a string has no \<open>find\<close> method to call, and the
  normalizer raises a \<open>TypeError\<close>.
\<close>

theorem flattenRunOutput_malformed_outputs_raises:
  "flattenRunOutput [(''id'', JString ''r1''), (''outputs'', JString ''oops'')] = Inl TypeError"
  by (simp add: flattenRunOutput_def INTERNAL_FIELDS_def firstOfType_def)

text \<open>
  C7, amended. The normalizer returns a record, without raising, for every input record
  whose \<open>outputs\<close> field is absent, \<open>undefined\<close>, \<open>null\<close>, or a list none of whose
  elements is \<open>null\<close>/\<open>undefined\<close> (the elements need not be records and need not
  carry a type).
\<close>

theorem flattenRunOutput_returns:
  assumes "outputRecords run = Some xs"
  shows "\<exists>out. flattenRunOutput run = Inr out"
proof -
  have ok: "list_all (\<lambda>x. \<not> nullish x) xs"
    using assms unfolding outputRecords_def
    by (auto split: option.splits jsval.splits if_splits)
  have "firstOfType (outputsValue run) t =
      Inr (case find (hasType t) xs of None \<Rightarrow> JUndefined | Some x \<Rightarrow> x)" for t
    unfolding outputsValue_records [OF assms] firstOfType_def
    using findType_find [OF ok] by simp
  then show ?thesis
    unfolding flattenRunOutput_Inr by blast
qed

text \<open>
  Two runs the amended statement covers: \<open>outputs\<close> absent, and \<open>outputs\<close> null.
\<close>

theorem flattenRunOutput_returns_example:
  "outputRecords [(''id'', JString ''r1'')] = Some []
   \<and> outputRecords [(''id'', JString ''r1''), (''outputs'', JNull)] = Some []
   \<and> (\<exists>out. flattenRunOutput [(''id'', JString ''r1'')] = Inr out)
   \<and> (\<exists>out. flattenRunOutput [(''id'', JString ''r1''), (''outputs'', JNull)] = Inr out)"
proof -
  have a: "outputRecords [(''id'', JString ''r1'')] = Some []"
    by (simp add: outputRecords_def)
  have b: "outputRecords [(''id'', JString ''r1''), (''outputs'', JNull)] = Some []"
    by (simp add: outputRecords_def)
  from a b flattenRunOutput_returns [OF a] flattenRunOutput_returns [OF b]
  show ?thesis by blast
qed

text \<open>
  C8 as stated does not hold: the derived fields are written after the spread of the
  original fields, so an original top-level field named \<open>pr\<close>, \<open>issue\<close>, \<open>branch\<close>
  or \<open>summary\<close> is replaced. A run created on branch \<open>main\<close> and without outputs comes
  back with \<open>branch: null\<close>.
\<close>

theorem flattenRunOutput_overwrites_branch:
  "flattenRunOutput [(''id'', JString ''r1''), (''branch'', JString ''main'')]
     = Inr [(''id'', JString ''r1''), (''branch'', JNull), (''pr'', JNull), (''issue'', JNull),
            (''summary'', JNull)]
   \<and> ''branch'' \<notin> INTERNAL_FIELDS
   \<and> map_of [(''id'', JString ''r1''), (''branch'', JString ''main'')] ''branch''
       = Some (JString ''main'')
   \<and> map_of [(''id'', JString ''r1''), (''branch'', JNull), (''pr'', JNull), (''issue'', JNull),
            (''summary'', JNull)] ''branch'' = Some JNull"
  by (simp add: flattenRunOutput_def INTERNAL_FIELDS_def firstOfType_def pick_def optProp_def)

text \<open>
  C8, amended. Every top-level field other than the four internal ones and other than
  \<open>pr\<close>, \<open>issue\<close>, \<open>branch\<close>, \<open>summary\<close> is in the normalizer's output exactly when
  it is in the input, with its original value; \<open>pr\<close>, \<open>issue\<close>, \<open>branch\<close> and
  \<open>summary\<close> are always keys of the output, where they carry the derived fields.
\<close>

theorem flattenRunOutput_preserves_fields:
  assumes "flattenRunOutput run = Inr out"
    and "k \<notin> INTERNAL_FIELDS"
    and "k \<notin> {''pr'', ''issue'', ''branch'', ''summary''}"
  shows "map_of out k = map_of run k
    \<and> {''pr'', ''issue'', ''branch'', ''summary''} \<subseteq> fst ` set out"
proof -
  from assms(1) obtain pr issue branch tx
    where out: "out = assemble (publicFields run) pr issue branch tx"
    unfolding flattenRunOutput_Inr by blast
  have "map_of out k = map_of run k"
    unfolding out map_of_assemble map_of_publicFields using assms(2,3) by simp
  moreover have "{''pr'', ''issue'', ''branch'', ''summary''} \<subseteq> fst ` set out"
    unfolding out keys_assemble by simp
  ultimately show ?thesis by simp
qed

text \<open>
  The \<open>status\<close> field of a run survives normalization.
\<close>

theorem flattenRunOutput_preserves_fields_example:
  "flattenRunOutput [(''id'', JString ''r1''), (''templateId'', JString ''tpl_1''),
                     (''status'', JString ''failed'')]
     = Inr [(''id'', JString ''r1''), (''status'', JString ''failed''), (''pr'', JNull),
            (''issue'', JNull), (''branch'', JNull), (''summary'', JNull)]
   \<and> ''status'' \<notin> INTERNAL_FIELDS
   \<and> ''status'' \<notin> {''pr'', ''issue'', ''branch'', ''summary''}
   \<and> map_of [(''id'', JString ''r1''), (''status'', JString ''failed''), (''pr'', JNull),
            (''issue'', JNull), (''branch'', JNull), (''summary'', JNull)] ''status''
       = map_of [(''id'', JString ''r1''), (''templateId'', JString ''tpl_1''),
                     (''status'', JString ''failed'')] ''status''"
proof -
  have run: "flattenRunOutput [(''id'', JString ''r1''), (''templateId'', JString ''tpl_1''),
                     (''status'', JString ''failed'')]
     = Inr [(''id'', JString ''r1''), (''status'', JString ''failed''), (''pr'', JNull),
            (''issue'', JNull), (''branch'', JNull), (''summary'', JNull)]"
    by (simp add: flattenRunOutput_def INTERNAL_FIELDS_def firstOfType_def pick_def
        optProp_def)
  have a: "''status'' \<notin> INTERNAL_FIELDS" by (simp add: INTERNAL_FIELDS_def)
  have b: "''status'' \<notin> {''pr'', ''issue'', ''branch'', ''summary''}" by simp
  from flattenRunOutput_preserves_fields [OF run a b] run a b show ?thesis
    by simp
qed

text \<open>
  Towards idempotence: the normalizer's output has no internal field to drop, its
  \<open>outputs\<close> is the input's, and writing the derived fields again changes nothing.
\<close>

lemma publicFields_id:
  "fst ` set al \<inter> INTERNAL_FIELDS = {} \<Longrightarrow> publicFields al = al"
  unfolding publicFields_def by (induction al) auto

lemma filter_publicFields_assemble:
  "publicFields (assemble (publicFields run) pr issue branch tx)
     = assemble (publicFields run) pr issue branch tx"
  by (rule publicFields_id)
     (auto simp: keys_assemble keys_publicFields INTERNAL_FIELDS_def)

lemma outputsValue_assemble:
  "outputsValue (assemble (publicFields run) pr issue branch text) = outputsValue run"
  unfolding outputsValue_def filter_publicFields_assemble
  by (simp add: map_of_assemble)

lemma assemble_again:
  "assemble (assemble f pr issue branch tx) pr issue branch tx
     = assemble f pr issue branch tx"
proof -
  let ?a = "assemble f pr issue branch tx"
  let ?s = "let c = optProp tx ''content'' in if nullish c then JNull else c"
  have 1: "AList.update ''pr'' (pick pr [''url'', ''title'', ''number'']) ?a = ?a"
    by (rule update_triv) (simp add: map_of_assemble)
  have 2: "AList.update ''issue'' (pick issue [''url'', ''title'', ''number'']) ?a = ?a"
    by (rule update_triv) (simp add: map_of_assemble)
  have 3: "AList.update ''branch'' (pick branch [''name'']) ?a = ?a"
    by (rule update_triv) (simp add: map_of_assemble)
  have 4: "AList.update ''summary'' ?s ?a = ?a"
    by (rule update_triv) (simp add: map_of_assemble)
  have "assemble ?a pr issue branch tx =
      AList.update ''summary'' ?s
       (AList.update ''branch'' (pick branch [''name''])
       (AList.update ''issue'' (pick issue [''url'', ''title'', ''number''])
       (AList.update ''pr'' (pick pr [''url'', ''title'', ''number'']) ?a)))"
    by (rule assemble_def)
  also have "\<dots> = ?a"
    by (simp only: 1 2 3 4)
  finally show ?thesis .
qed

text \<open>
  C9. Applied to a record that the normalizer returned, the normalizer does not fail and
  yields the same \<open>pr\<close>, \<open>issue\<close>, \<open>branch\<close> and \<open>summary\<close>; indeed it returns the
  record unchanged.
\<close>

theorem flattenRunOutput_idempotent:
  assumes "flattenRunOutput run = Inr out"
  shows "\<exists>out'. flattenRunOutput out = Inr out'
    \<and> map_of out' ''pr'' = map_of out ''pr''
    \<and> map_of out' ''issue'' = map_of out ''issue''
    \<and> map_of out' ''branch'' = map_of out ''branch''
    \<and> map_of out' ''summary'' = map_of out ''summary''
    \<and> out' = out"
proof -
  from assms obtain pr issue branch tx
    where f: "firstOfType (outputsValue run) ''pr'' = Inr pr"
      "firstOfType (outputsValue run) ''issue'' = Inr issue"
      "firstOfType (outputsValue run) ''branch'' = Inr branch"
      "firstOfType (outputsValue run) ''text'' = Inr tx"
      and out: "out = assemble (publicFields run) pr issue branch tx"
    unfolding flattenRunOutput_Inr by blast
  have "flattenRunOutput out = Inr out"
    unfolding flattenRunOutput_Inr [of out]
    unfolding out outputsValue_assemble filter_publicFields_assemble
    using f assemble_again by metis
  then show ?thesis by simp
qed

text \<open>
  A run with a branch output, normalized once and then again.
\<close>

theorem flattenRunOutput_idempotent_example:
  "flattenRunOutput
     [(''id'', JString ''r1''), (''templateId'', JString ''tpl_1''),
      (''outputs'', JArray [JObject [(''type'', JString ''branch''), (''name'', JString ''fix/x'')]])]
   = Inr [(''id'', JString ''r1''),
      (''outputs'', JArray [JObject [(''type'', JString ''branch''), (''name'', JString ''fix/x'')]]),
      (''pr'', JNull), (''issue'', JNull), (''branch'', JObject [(''name'', JString ''fix/x'')]),
      (''summary'', JNull)]
   \<and> flattenRunOutput
     [(''id'', JString ''r1''),
      (''outputs'', JArray [JObject [(''type'', JString ''branch''), (''name'', JString ''fix/x'')]]),
      (''pr'', JNull), (''issue'', JNull), (''branch'', JObject [(''name'', JString ''fix/x'')]),
      (''summary'', JNull)]
   = Inr [(''id'', JString ''r1''),
      (''outputs'', JArray [JObject [(''type'', JString ''branch''), (''name'', JString ''fix/x'')]]),
      (''pr'', JNull), (''issue'', JNull), (''branch'', JObject [(''name'', JString ''fix/x'')]),
      (''summary'', JNull)]"
proof -
  have run: "flattenRunOutput
     [(''id'', JString ''r1''), (''templateId'', JString ''tpl_1''),
      (''outputs'', JArray [JObject [(''type'', JString ''branch''), (''name'', JString ''fix/x'')]])]
   = Inr [(''id'', JString ''r1''),
      (''outputs'', JArray [JObject [(''type'', JString ''branch''), (''name'', JString ''fix/x'')]]),
      (''pr'', JNull), (''issue'', JNull), (''branch'', JObject [(''name'', JString ''fix/x'')]),
      (''summary'', JNull)]"
    by (simp add: flattenRunOutput_def INTERNAL_FIELDS_def firstOfType_def pick_def
        optProp_def getProp_def)
  from flattenRunOutput_idempotent [OF run] run show ?thesis
    by simp
qed

section \<open>Properties of the Run Poller\<close>

lemma fst_cospecApiRequest:
  "fst (cospecApiRequest h method path body w) = apiOutcome (respond h (calls w) method path body)"
  by (simp add: cospecApiRequest_def apiOutcome_def Let_def split: sum.splits)

lemma snd_cospecApiRequest:
  "snd (cospecApiRequest h method path body w) =
     w\<lparr>clock := clock w + int (elapsed h (length (trace w))),
       calls := Suc (calls w),
       trace := trace w @ [Request method path body]\<rparr>"
  by (simp add: cospecApiRequest_def Let_def split: sum.splits)

lemma afterRounds_0: "afterRounds h runId w 0 = w"
  by (simp add: afterRounds_def checkTime_def)

lemma checkTime_Suc:
  "checkTime h w (Suc j) =
     checkTime h w j + 5000 + int (elapsed h (length (trace w) + 2 * j))
       + int (elapsed h (length (trace w) + 2 * j + 1))"
  by (simp add: checkTime_def)

lemma checkTime_mono: "i \<le> j \<Longrightarrow> checkTime h w i \<le> checkTime h w j"
proof (induction j)
  case 0
  then show ?case by simp
next
  case (Suc j)
  then show ?case
    by (cases "i = Suc j") (simp_all add: checkTime_Suc)
qed

lemma checkTime_lower: "clock w + 5000 * int j \<le> checkTime h w j"
  unfolding checkTime_def by (simp del: of_nat_sum)

lemma length_rounds: "length (concat (replicate j [a, b])) = 2 * j"
  by (induction j) simp_all

lemma concat_replicate_snoc: "concat (replicate j xs) @ xs = concat (replicate (Suc j) xs)"
  by (induction j) simp_all

lemma fst_pollOnce:
  "fst (pollOnce h runId (afterRounds h runId w j)) =
     apiOutcome (respond h (calls w + j) ''GET'' (runPath runId) None)"
  by (simp add: pollOnce_def fst_cospecApiRequest sleep_def afterRounds_def)

lemma snd_pollOnce:
  "snd (pollOnce h runId (afterRounds h runId w j)) = afterRounds h runId w (Suc j)"
  by (simp add: pollOnce_def snd_cospecApiRequest sleep_def afterRounds_def checkTime_Suc
      POLL_INTERVAL_MS_def length_rounds concat_replicate_snoc del: replicate_Suc concat.simps)

lemma poll_rounds:
  assumes "\<forall>i<j. pending h runId w i" and "\<forall>i<j. checkTime h w i < deadline"
  shows "pollLoop h runId ts idx deadline w
       = pollLoop h runId ts idx deadline (afterRounds h runId w j)"
  using assms
proof (induction j)
  case 0
  show ?case by (simp add: afterRounds_0)
next
  case (Suc j)
  then have IH: "pollLoop h runId ts idx deadline w
       = pollLoop h runId ts idx deadline (afterRounds h runId w j)"
    by simp
  from Suc.prems have p: "pending h runId w j" and c: "checkTime h w j < deadline"
    by simp_all
  from p obtain run where r: "respond h (calls w + j) ''GET'' (runPath runId) None = Inr run"
    and s: "readProp (JObject run) ''status'' \<notin> TERMINAL_STATUSES"
    by (auto simp: pending_def split: sum.splits)
  have ck: "clock (afterRounds h runId w j) < deadline"
    using c by (simp add: afterRounds_def)
  have "pollLoop h runId ts idx deadline (afterRounds h runId w j)
      = pollLoop h runId ts idx deadline (afterRounds h runId w (Suc j))"
    using s by (subst pollLoop.simps) (simp add: ck fst_pollOnce snd_pollOnce r apiOutcome_def)
  with IH show ?case by simp
qed

text \<open>
  C3. Each round sleeps the fixed 5000 ms and then issues one GET. If the first \<open>k\<close>
  GETs succeed with a status outside \<open>{completed, failed, cancelled}\<close> (any other
  value, or none), the next one succeeds with a terminal status, and the deadline has not
  passed when the loop condition is tested before it, then the poll returns the
  normalized run of that GET after exactly \<open>k + 1\<close> sleeps and \<open>k + 1\<close> GETs.
\<close>

theorem pollUntilComplete_returns_first_terminal:
  assumes "\<forall>i<k. pending h runId w i"
    and "respond h (calls w + k) ''GET'' (runPath runId) None = Inr run"
    and "readProp (JObject run) ''status''
           \<in> {JString ''completed'', JString ''failed'', JString ''cancelled''}"
    and "checkTime h w k < clock w + timeoutSeconds * 1000 + 60000"
  shows "pollUntilComplete h runId timeoutSeconds idx w
       = (flattenRunOutput run, afterRounds h runId w (Suc k))"
proof -
  let ?deadline = "clock w + timeoutSeconds * 1000 + 60000"
  have ck: "clock (afterRounds h runId w k) < ?deadline"
    using assms(4) by (simp add: afterRounds_def)
  have t: "readProp (JObject run) ''status'' \<in> TERMINAL_STATUSES"
    using assms(3) by (simp add: TERMINAL_STATUSES_def)
  have "\<forall>i<k. checkTime h w i < ?deadline"
    using assms(4) checkTime_mono [of _ k h w] by (meson less_imp_le_nat order_le_less_trans)
  with assms(1)
  have "pollLoop h runId timeoutSeconds idx ?deadline w
      = pollLoop h runId timeoutSeconds idx ?deadline (afterRounds h runId w k)"
    by (rule poll_rounds)
  also have "\<dots> = (flattenRunOutput run, afterRounds h runId w (Suc k))"
    by (subst pollLoop.simps)
       (simp add: ck t fst_pollOnce snd_pollOnce assms(2) apiOutcome_def del: readProp.simps)
  finally show ?thesis
    by (simp add: pollUntilComplete_def TIMEOUT_BUFFER_MS_def)
qed

text \<open>
  Statuses \<open>running\<close>, \<open>running\<close>, \<open>completed\<close>: the normalized final run after
  exactly three GETs, each preceded by a 5000 ms sleep.
\<close>

theorem pollUntilComplete_three_fetches:
  "pollUntilComplete (hostOfStatuses [''running'', ''running'', ''completed''])
      (JString ''run_1'') 30 0 world0
   = (Inr [(''id'', JString ''run_1''), (''status'', JString ''completed''),
           (''pr'', JNull), (''issue'', JNull), (''branch'', JNull), (''summary'', JNull)],
      \<lparr>clock = 15000, calls = 3,
       trace = [Sleep 5000, Request ''GET'' ''/v1/runs/run_1'' None,
                Sleep 5000, Request ''GET'' ''/v1/runs/run_1'' None,
                Sleep 5000, Request ''GET'' ''/v1/runs/run_1'' None]\<rparr>)"
proof -
  let ?h = "hostOfStatuses [''running'', ''running'', ''completed'']"
  let ?run = "[(''id'', JString ''run_1''), (''status'', JString ''completed''),
               (''templateId'', JString ''tpl_1'')]"
  have 1: "\<forall>i<Suc (Suc 0). pending ?h (JString ''run_1'') world0 i"
    by (simp add: All_less_Suc pending_def hostOfStatuses_def world0_def TERMINAL_STATUSES_def)
  have 2: "respond ?h (calls world0 + Suc (Suc 0)) ''GET'' (runPath (JString ''run_1'')) None
      = Inr ?run"
    by (simp add: hostOfStatuses_def world0_def)
  have 3: "readProp (JObject ?run) ''status''
      \<in> {JString ''completed'', JString ''failed'', JString ''cancelled''}"
    by simp
  have 4: "checkTime ?h world0 (Suc (Suc 0)) < clock world0 + 30 * 1000 + 60000"
    by (simp add: checkTime_def hostOfStatuses_def world0_def)
  have 5: "flattenRunOutput ?run =
      Inr [(''id'', JString ''run_1''), (''status'', JString ''completed''),
           (''pr'', JNull), (''issue'', JNull), (''branch'', JNull), (''summary'', JNull)]"
    by (simp add: flattenRunOutput_def INTERNAL_FIELDS_def firstOfType_def pick_def optProp_def)
  have 6: "afterRounds ?h (JString ''run_1'') world0 (Suc (Suc (Suc 0))) =
      \<lparr>clock = 15000, calls = 3,
       trace = [Sleep 5000, Request ''GET'' ''/v1/runs/run_1'' None,
                Sleep 5000, Request ''GET'' ''/v1/runs/run_1'' None,
                Sleep 5000, Request ''GET'' ''/v1/runs/run_1'' None]\<rparr>"
    by (simp add: afterRounds_def checkTime_def hostOfStatuses_def world0_def runPath_def)
  from pollUntilComplete_returns_first_terminal [OF 1 2 3 4, of 0] show ?thesis
    by (simp only: 5 6)
qed

text \<open>
  The decimal rendering of a number reads back as the number, and a message that
  contains none of the codes is kept by the constructor.
\<close>

lemma digit_nth: "d < 10 \<Longrightarrow> digitValue (''0123456789'' ! d) = Some d"
proof -
  assume "d < 10"
  then consider "d = 0" | "d = 1" | "d = 2" | "d = 3" | "d = 4" | "d = 5" | "d = 6" | "d = 7"
    | "d = 8" | "d = 9"
    by atomize_elim presburger
  then show ?thesis
    by cases (simp_all add: digitValue_def)
qed

lemma digit_nth_zero: "d < 10 \<Longrightarrow> ''0123456789'' ! d = CHR ''0'' \<longleftrightarrow> d = 0"
  using digit_nth [of d] by (auto simp: digitValue_def)

lemma digit_nth_minus: "d < 10 \<Longrightarrow> ''0123456789'' ! d \<noteq> CHR ''-''"
  using digit_nth [of d] by (auto simp: digitValue_def)

lemma digitsValue_append:
  "digitsValue (xs @ ys) acc =
     (case digitsValue xs acc of None \<Rightarrow> None | Some v \<Rightarrow> digitsValue ys v)"
  by (induction xs arbitrary: acc) (auto split: option.splits)

lemma natToString_nonempty: "natToString n \<noteq> []"
  by (subst natToString.simps) simp

lemma digitsValue_natToString: "digitsValue (natToString n) 0 = Some n"
proof (induction n rule: natToString.induct)
  case (1 n)
  show ?case
  proof (cases "n < 10")
    case True
    then show ?thesis
      by (subst natToString.simps) (simp add: digit_nth)
  next
    case False
    with 1 have "digitsValue (natToString (n div 10)) 0 = Some (n div 10)" by simp
    with False show ?thesis
      by (subst natToString.simps) (simp add: digitsValue_append digit_nth)
  qed
qed

lemma hd_natToString: "hd (natToString n) \<noteq> CHR ''-'' \<and> (hd (natToString n) = CHR ''0'' \<longrightarrow> n < 10)"
proof (induction n rule: natToString.induct)
  case (1 n)
  show ?case
  proof (cases "n < 10")
    case True
    then show ?thesis
      by (subst (1 2) natToString.simps) (simp add: digit_nth_minus)
  next
    case False
    then have "0 < n div 10" by simp
    moreover from False 1 have IH: "hd (natToString (n div 10)) \<noteq> CHR ''-''
        \<and> (hd (natToString (n div 10)) = CHR ''0'' \<longrightarrow> n div 10 < 10)" by simp
    have z: "hd (natToString (n div 10)) \<noteq> CHR ''0''"
    proof
      assume a: "hd (natToString (n div 10)) = CHR ''0''"
      with IH have s: "n div 10 < 10" by simp
      then have "natToString (n div 10) = [''0123456789'' ! (n div 10)]"
        by (subst natToString.simps) simp
      with a s have "n div 10 = 0" by (simp add: digit_nth_zero)
      with False show False by simp
    qed
    have "hd (natToString n) = hd (natToString (n div 10))"
      using False natToString_nonempty [of "n div 10"]
      by (subst natToString.simps) simp
    with IH z show ?thesis by simp
  qed
qed

lemma length_natToString: "n < 10 \<Longrightarrow> length (natToString n) = 1"
  by (subst natToString.simps) simp

lemma naturalValue_natToString: "naturalValue (natToString n) = Some n"
  using hd_natToString [of n] length_natToString [of n]
  by (auto simp: naturalValue_def natToString_nonempty digitsValue_natToString)

lemma decimalValue_numberToString: "decimalValue (numberToString i) = Some i"
proof (cases "i < 0")
  case True
  then show ?thesis
    by (simp add: numberToString_def decimalValue_def naturalValue_natToString)
next
  case False
  then show ?thesis
    using hd_natToString [of "nat i"]
    by (simp add: numberToString_def decimalValue_def naturalValue_natToString)
qed

lemma setDescriptiveErrorMessage_kept:
  "list_all (\<lambda>code. \<not> stringIncludes (toUpperCase message) (toUpperCase code)) codes \<Longrightarrow>
   setDescriptiveErrorMessage codes message = Original message"
  by (induction codes) simp_all

text \<open>
  The poll gives up at the first test of the loop condition at or after the deadline;
  a run that stays \<open>running\<close> always ends this way.
\<close>

lemma poll_gives_up:
  assumes "\<forall>i. checkTime h w i < clock w + timeoutSeconds * 1000 + 60000
             \<longrightarrow> pending h runId w i"
  shows "\<exists>n. pollUntilComplete h runId timeoutSeconds idx w
        = (Inl (NodeOperationError (JString (timeoutMessage runId timeoutSeconds)) (Some idx)),
           afterRounds h runId w n)
      \<and> (\<forall>i<n. checkTime h w i < clock w + timeoutSeconds * 1000 + 60000)
      \<and> clock w + timeoutSeconds * 1000 + 60000 \<le> checkTime h w n"
proof -
  let ?deadline = "clock w + timeoutSeconds * 1000 + 60000"
  define n where "n = (LEAST j. ?deadline \<le> checkTime h w j)"
  have "?deadline \<le> checkTime h w (nat (?deadline - clock w))"
    using checkTime_lower [of w "nat (?deadline - clock w)" h] by linarith
  then have late: "?deadline \<le> checkTime h w n"
    unfolding n_def by (rule LeastI)
  have early: "\<forall>i<n. checkTime h w i < ?deadline"
    using not_less_Least [of _ "\<lambda>j. ?deadline \<le> checkTime h w j"]
    unfolding n_def by (meson not_le)
  have ck: "\<not> clock (afterRounds h runId w n) < ?deadline"
    using late by (simp add: afterRounds_def)
  from assms early have "\<forall>i<n. pending h runId w i" by simp
  then have "pollLoop h runId timeoutSeconds idx ?deadline w
      = pollLoop h runId timeoutSeconds idx ?deadline (afterRounds h runId w n)"
    using early by (rule poll_rounds)
  also have "\<dots> = (Inl (NodeOperationError
                 (JString (timeoutMessage runId timeoutSeconds)) (Some idx)),
           afterRounds h runId w n)"
    by (subst pollLoop.simps) (simp add: ck)
  finally have "pollUntilComplete h runId timeoutSeconds idx w
        = (Inl (NodeOperationError (JString (timeoutMessage runId timeoutSeconds)) (Some idx)),
           afterRounds h runId w n)"
    by (simp add: pollUntilComplete_def TIMEOUT_BUFFER_MS_def)
  with early late show ?thesis by blast
qed

lemma stays_running:
  "fst (pollUntilComplete (hostOfStatuses []) (JString rid) timeoutSeconds idx world0)
     = Inl (NodeOperationError (JString (timeoutMessage (JString rid) timeoutSeconds)) (Some idx))"
proof -
  have "\<forall>i. checkTime (hostOfStatuses []) world0 i
              < clock world0 + timeoutSeconds * 1000 + 60000
             \<longrightarrow> pending (hostOfStatuses []) (JString rid) world0 i"
    by (simp add: pending_def hostOfStatuses_def TERMINAL_STATUSES_def)
  from poll_gives_up [OF this, of idx] show ?thesis by auto
qed

text \<open>
  C2, amended. The deadline is the start time plus \<open>timeoutSeconds * 1000 + 60000\<close>
  ms. When every GET issued before it succeeds with a non-terminal status, the poll gives
  up at the first test of the loop condition at which the clock has reached the deadline,
  not earlier, and fails with a \<open>NodeOperationError\<close> constructed from the message
  \<open>Run <id> did not complete within <t>s timeout\<close>, where \<open><id>\<close> is the run ID
  itself and \<open><t>\<close> the decimal numeral of \<open>timeoutSeconds\<close> (not of the
  grace-extended value). The constructed error shows this message when the run ID is ASCII
  text and the message contains, ignoring case, none of the library's common error codes.
\<close>

theorem pollUntilComplete_times_out:
  assumes "\<forall>i. checkTime h w i < clock w + timeoutSeconds * 1000 + 60000
             \<longrightarrow> pending h (JString rid) w i"
  shows "\<exists>n message. pollUntilComplete h (JString rid) timeoutSeconds idx w
        = (Inl (NodeOperationError (JString message) (Some idx)),
           afterRounds h (JString rid) w n)
      \<and> (\<forall>i<n. checkTime h w i < clock w + timeoutSeconds * 1000 + 60000)
      \<and> clock w + timeoutSeconds * 1000 + 60000 \<le> checkTime h w n
      \<and> message = ''Run '' @ rid @ '' did not complete within ''
                     @ numberToString timeoutSeconds @ ''s timeout''
      \<and> decimalValue (numberToString timeoutSeconds) = Some timeoutSeconds
      \<and> (asciiText rid
           \<and> list_all (\<lambda>code. \<not> stringIncludes (toUpperCase message) code)
                [''ECONNREFUSED'', ''ECONNRESET'', ''ENOTFOUND'', ''ETIMEDOUT'',
                 ''ERRADDRINUSE'', ''EADDRNOTAVAIL'', ''ECONNABORTED'', ''EHOSTUNREACH'',
                 ''EAI_AGAIN'', ''ENOENT'', ''EISDIR'', ''ENOTDIR'', ''EACCES'', ''EEXIST'',
                 ''EPERM'', ''GETADDRINFO'']
          \<longrightarrow> shownMessage message = Original message)"
proof -
  let ?m = "''Run '' @ rid @ '' did not complete within ''
              @ numberToString timeoutSeconds @ ''s timeout''"
  have m: "timeoutMessage (JString rid) timeoutSeconds = ?m"
    by (simp add: timeoutMessage_def)
  have up: "map toUpperCase COMMON_ERROR_CODES = COMMON_ERROR_CODES"
    by (simp add: COMMON_ERROR_CODES_def toUpperCase_def upperChar_def)
  have kept: "shownMessage ?m = Original ?m"
    if "list_all (\<lambda>code. \<not> stringIncludes (toUpperCase ?m) code) COMMON_ERROR_CODES"
  proof -
    from that
    have "list_all (\<lambda>code. \<not> stringIncludes (toUpperCase ?m) code)
            (map toUpperCase COMMON_ERROR_CODES)"
      by (simp only: up)
    then have "list_all (\<lambda>code. \<not> stringIncludes (toUpperCase ?m) (toUpperCase code))
            COMMON_ERROR_CODES"
      by (simp add: list_all_iff)
    then show ?thesis
      unfolding shownMessage_def by (rule setDescriptiveErrorMessage_kept)
  qed
  from poll_gives_up [OF assms, of idx] obtain n
    where "pollUntilComplete h (JString rid) timeoutSeconds idx w
        = (Inl (NodeOperationError (JString ?m) (Some idx)), afterRounds h (JString rid) w n)"
      and "\<forall>i<n. checkTime h w i < clock w + timeoutSeconds * 1000 + 60000"
      and "clock w + timeoutSeconds * 1000 + 60000 \<le> checkTime h w n"
    unfolding m by blast
  moreover have "decimalValue (numberToString timeoutSeconds) = Some timeoutSeconds"
    by (rule decimalValue_numberToString)
  moreover have "asciiText rid
           \<and> list_all (\<lambda>code. \<not> stringIncludes (toUpperCase ?m) code)
                [''ECONNREFUSED'', ''ECONNRESET'', ''ENOTFOUND'', ''ETIMEDOUT'',
                 ''ERRADDRINUSE'', ''EADDRNOTAVAIL'', ''ECONNABORTED'', ''EHOSTUNREACH'',
                 ''EAI_AGAIN'', ''ENOENT'', ''EISDIR'', ''ENOTDIR'', ''EACCES'', ''EEXIST'',
                 ''EPERM'', ''GETADDRINFO'']
          \<longrightarrow> shownMessage ?m = Original ?m"
    using kept unfolding COMMON_ERROR_CODES_def by blast
  ultimately show ?thesis by blast
qed

text \<open>
  C2 as stated does not hold for every run ID: for the run \<open>run_eperm1\<close> the message
  handed to the constructor contains the code \<open>EPERM\<close>, and the constructed error
  shows the library's descriptive text for that code instead of the message that names
  the run and the timeout.
\<close>

theorem pollUntilComplete_replaced_message:
  "fst (pollUntilComplete (hostOfStatuses []) (JString ''run_eperm1'') 30 7 world0)
     = Inl (NodeOperationError
              (JString ''Run run_eperm1 did not complete within 30s timeout'') (Some 7))
   \<and> shownMessage ''Run run_eperm1 did not complete within 30s timeout''
     = Descriptive ''EPERM''"
proof -
  have s: "numberToString 30 = ''30''"
    by (simp add: numberToString_def natToString.simps)
  have 1: "fst (pollUntilComplete (hostOfStatuses []) (JString ''run_eperm1'') 30 7 world0)
     = Inl (NodeOperationError
              (JString ''Run run_eperm1 did not complete within 30s timeout'') (Some 7))"
    using stays_running [of "''run_eperm1''" 30 7] by (simp add: timeoutMessage_def s)
  have 2: "shownMessage ''Run run_eperm1 did not complete within 30s timeout''
     = Descriptive ''EPERM''"
    by code_simp
  from 1 2 show ?thesis by simp
qed

text \<open>
  A run that stays \<open>running\<close>, with a timeout of 30 s: the poll gives up at 90 s, after
  18 GETs, and the message, which the constructor keeps, says 30s.
\<close>

theorem pollUntilComplete_times_out_example:
  "pollUntilComplete (hostOfStatuses []) (JString ''run_1'') 30 7 world0
   = (Inl (NodeOperationError (JString ''Run run_1 did not complete within 30s timeout'')
            (Some 7)),
      afterRounds (hostOfStatuses []) (JString ''run_1'') world0 18)
   \<and> clock (afterRounds (hostOfStatuses []) (JString ''run_1'') world0 18) = 90000
   \<and> calls (afterRounds (hostOfStatuses []) (JString ''run_1'') world0 18) = 18
   \<and> decimalValue ''30'' = Some 30
   \<and> shownMessage ''Run run_1 did not complete within 30s timeout''
     = Original ''Run run_1 did not complete within 30s timeout''"
proof -
  let ?h = "hostOfStatuses []"
  let ?codes = "[''ECONNREFUSED'', ''ECONNRESET'', ''ENOTFOUND'', ''ETIMEDOUT'',
                 ''ERRADDRINUSE'', ''EADDRNOTAVAIL'', ''ECONNABORTED'', ''EHOSTUNREACH'',
                 ''EAI_AGAIN'', ''ENOENT'', ''EISDIR'', ''ENOTDIR'', ''EACCES'', ''EEXIST'',
                 ''EPERM'', ''GETADDRINFO'']"
  have p: "\<forall>i. checkTime ?h world0 i < clock world0 + 30 * 1000 + 60000
             \<longrightarrow> pending ?h (JString ''run_1'') world0 i"
    by (simp add: pending_def hostOfStatuses_def TERMINAL_STATUSES_def)
  have ct: "checkTime ?h world0 j = 5000 * int j" for j
    by (simp add: checkTime_def hostOfStatuses_def world0_def)
  have cw: "clock world0 = 0" "calls world0 = 0"
    by (simp_all add: world0_def)
  have s: "numberToString 30 = ''30''"
    by (simp add: numberToString_def natToString.simps)
  have a: "asciiText ''run_1''"
    by (simp add: asciiText_def)
  have u: "toUpperCase ''Run run_1 did not complete within 30s timeout''
      = ''RUN RUN_1 DID NOT COMPLETE WITHIN 30S TIMEOUT''"
    by (simp add: toUpperCase_def upperChar_def)
  have c: "list_all (\<lambda>code. \<not> stringIncludes
              (toUpperCase ''Run run_1 did not complete within 30s timeout'') code) ?codes"
    unfolding u by simp
  from pollUntilComplete_times_out [OF p, of 7] obtain n message
    where r: "pollUntilComplete ?h (JString ''run_1'') 30 7 world0
        = (Inl (NodeOperationError (JString message) (Some 7)),
           afterRounds ?h (JString ''run_1'') world0 n)"
      and e: "\<forall>i<n. checkTime ?h world0 i < clock world0 + 30 * 1000 + 60000"
      and l: "clock world0 + 30 * 1000 + 60000 \<le> checkTime ?h world0 n"
      and m: "message = ''Run '' @ ''run_1'' @ '' did not complete within ''
                     @ numberToString 30 @ ''s timeout''"
      and d: "decimalValue (numberToString 30) = Some 30"
      and k: "asciiText ''run_1''
           \<and> list_all (\<lambda>code. \<not> stringIncludes (toUpperCase message) code) ?codes
          \<longrightarrow> shownMessage message = Original message"
    by blast
  from m have m': "message = ''Run run_1 did not complete within 30s timeout''"
    by (simp add: s)
  from l have "18 \<le> n" by (simp add: ct cw)
  moreover have "\<not> 18 < n"
  proof
    assume "18 < n"
    with e have "checkTime ?h world0 18 < clock world0 + 30 * 1000 + 60000" by blast
    then show False by (simp add: ct cw)
  qed
  ultimately have n: "n = 18" by simp
  from k a c have k': "shownMessage ''Run run_1 did not complete within 30s timeout''
     = Original ''Run run_1 did not complete within 30s timeout''"
    unfolding m' by blast
  from d have d': "decimalValue ''30'' = Some 30"
    by (simp only: s)
  from r show ?thesis
    unfolding n m' by (simp add: d' k' afterRounds_def ct cw)
qed

text \<open>
  C6. If the first \<open>k\<close> GETs of a poll succeed with non-terminal statuses and the next
  one fails, the poll ends there: its result is the error that the API Client made of the
  failure (a \<open>NodeOperationError\<close> carrying the extracted message), and no request or
  sleep follows the failed GET.
\<close>

theorem pollUntilComplete_propagates_failure:
  assumes "\<forall>i<k. pending h runId w i"
    and "respond h (calls w + k) ''GET'' (runPath runId) None = Inl err"
    and "checkTime h w k < clock w + timeoutSeconds * 1000 + 60000"
  shows "pollUntilComplete h runId timeoutSeconds idx w
       = (Inl (case extractApiErrorMessage err of
                 Inl e \<Rightarrow> e
               | Inr message \<Rightarrow> NodeOperationError message None),
          afterRounds h runId w (Suc k))"
proof -
  let ?deadline = "clock w + timeoutSeconds * 1000 + 60000"
  have ck: "clock (afterRounds h runId w k) < ?deadline"
    using assms(3) by (simp add: afterRounds_def)
  have "\<forall>i<k. checkTime h w i < ?deadline"
    using assms(3) checkTime_mono [of _ k h w] by (meson less_imp_le_nat order_le_less_trans)
  with assms(1)
  have "pollLoop h runId timeoutSeconds idx ?deadline w
      = pollLoop h runId timeoutSeconds idx ?deadline (afterRounds h runId w k)"
    by (rule poll_rounds)
  also have "\<dots> = (Inl (case extractApiErrorMessage err of
                 Inl e \<Rightarrow> e
               | Inr message \<Rightarrow> NodeOperationError message None),
          afterRounds h runId w (Suc k))"
    by (subst pollLoop.simps)
       (simp add: ck fst_pollOnce snd_pollOnce assms(2) apiOutcome_def split: sum.splits)
  finally show ?thesis
    by (simp add: pollUntilComplete_def TIMEOUT_BUFFER_MS_def)
qed

text \<open>
  The second GET fails with a problem body; a third one would have succeeded with
  \<open>completed\<close>, but it is never issued.
\<close>

theorem pollUntilComplete_propagates_failure_example:
  "pollUntilComplete hostFailingSecond (JString ''run_1'') 30 0 world0
   = (Inl (NodeOperationError (JString ''Run run_1 not found'') None),
      \<lparr>clock = 10000, calls = 2,
       trace = [Sleep 5000, Request ''GET'' ''/v1/runs/run_1'' None,
                Sleep 5000, Request ''GET'' ''/v1/runs/run_1'' None]\<rparr>)"
proof -
  let ?err = "JObject [(''message'', JString ''The resource you are requesting could not be found''),
                        (''context'', JObject [(''data'', JObject
                           [(''title'', JString ''Not Found''),
                            (''detail'', JString ''Run run_1 not found'')])])]"
  have 1: "\<forall>i<Suc 0. pending hostFailingSecond (JString ''run_1'') world0 i"
    by (simp add: pending_def hostFailingSecond_def world0_def TERMINAL_STATUSES_def)
  have 2: "respond hostFailingSecond (calls world0 + Suc 0) ''GET'' (runPath (JString ''run_1''))
      None = Inl ?err"
    by (simp add: hostFailingSecond_def world0_def)
  have 3: "checkTime hostFailingSecond world0 (Suc 0) < clock world0 + 30 * 1000 + 60000"
    by (simp add: checkTime_def hostFailingSecond_def world0_def)
  have 4: "extractApiErrorMessage ?err = Inr (JString ''Run run_1 not found'')"
    by (simp add: extractApiErrorMessage_def fromLocated_def extractFromBody_def getProp_def
        optProp_def)
  have 5: "afterRounds hostFailingSecond (JString ''run_1'') world0 (Suc (Suc 0)) =
      \<lparr>clock = 10000, calls = 2,
       trace = [Sleep 5000, Request ''GET'' ''/v1/runs/run_1'' None,
                Sleep 5000, Request ''GET'' ''/v1/runs/run_1'' None]\<rparr>"
    by (simp add: afterRounds_def checkTime_def hostFailingSecond_def world0_def runPath_def)
  from pollUntilComplete_propagates_failure [OF 1 2 3, of 0] show ?thesis
    by (simp add: 4 5)
qed

section \<open>Properties of the operation handlers\<close>

text \<open>
  C10. With wait-for-completion disabled, Create Run returns the response of the POST as
  it is, after that single request: no field is stripped and none is added. With it
  enabled the result is the poller's, and Get Run returns the normalized response of its
  GET.
\<close>

theorem createRun_without_wait:
  assumes "respond h (calls w) ''POST'' ''/v1/runs'' (Some body) = Inr response"
  shows "createRun h body False guardrailTimeout idx w
       = (Inr response,
          w\<lparr>clock := clock w + int (elapsed h (length (trace w))),
            calls := Suc (calls w),
            trace := trace w @ [Request ''POST'' ''/v1/runs'' (Some body)]\<rparr>)
    \<and> createRun h body True guardrailTimeout idx w
       = pollUntilComplete h (readProp (JObject response) ''id'')
           (getTimeoutSeconds guardrailTimeout) idx
           (w\<lparr>clock := clock w + int (elapsed h (length (trace w))),
             calls := Suc (calls w),
             trace := trace w @ [Request ''POST'' ''/v1/runs'' (Some body)]\<rparr>)
    \<and> fst (getRun h runId w)
       = (case apiOutcome (respond h (calls w) ''GET'' (runPath runId) None) of
            Inl e \<Rightarrow> Inl e
          | Inr run \<Rightarrow> flattenRunOutput run)"
proof -
  have post: "cospecApiRequest h ''POST'' ''/v1/runs'' (Some body) w
     = (Inr response,
          w\<lparr>clock := clock w + int (elapsed h (length (trace w))),
            calls := Suc (calls w),
            trace := trace w @ [Request ''POST'' ''/v1/runs'' (Some body)]\<rparr>)"
    using assms by (simp add: cospecApiRequest_def Let_def)
  have get: "fst (getRun h runId w)
       = (case apiOutcome (respond h (calls w) ''GET'' (runPath runId) None) of
            Inl e \<Rightarrow> Inl e
          | Inr run \<Rightarrow> flattenRunOutput run)"
    unfolding getRun_def
    using fst_cospecApiRequest [of h "''GET''" "runPath runId" None w]
    by (cases "cospecApiRequest h ''GET'' (runPath runId) None w")
       (simp split: sum.splits)
  show ?thesis
    using get by (simp add: createRun_def post)
qed

text \<open>
  The raw response keeps its internal \<open>templateId\<close> and has no \<open>pr\<close>; Get Run on the
  same record drops the one and adds the other.
\<close>

theorem createRun_without_wait_example:
  "createRun (hostOfStatuses []) [(''repo'', JString ''owner/repo'')] False None 0 world0
   = (Inr [(''id'', JString ''run_1''), (''status'', JString ''running''),
           (''templateId'', JString ''tpl_1'')],
      \<lparr>clock = 0, calls = 1,
       trace = [Request ''POST'' ''/v1/runs'' (Some [(''repo'', JString ''owner/repo'')])]\<rparr>)
   \<and> fst (getRun (hostOfStatuses []) (JString ''run_1'') world0)
     = Inr [(''id'', JString ''run_1''), (''status'', JString ''running''),
           (''pr'', JNull), (''issue'', JNull), (''branch'', JNull), (''summary'', JNull)]"
proof -
  have 1: "respond (hostOfStatuses []) (calls world0) ''POST'' ''/v1/runs''
      (Some [(''repo'', JString ''owner/repo'')])
    = Inr [(''id'', JString ''run_1''), (''status'', JString ''running''),
           (''templateId'', JString ''tpl_1'')]"
    by (simp add: hostOfStatuses_def)
  have 2: "flattenRunOutput [(''id'', JString ''run_1''), (''status'', JString ''running''),
           (''templateId'', JString ''tpl_1'')]
     = Inr [(''id'', JString ''run_1''), (''status'', JString ''running''),
           (''pr'', JNull), (''issue'', JNull), (''branch'', JNull), (''summary'', JNull)]"
    by (simp add: flattenRunOutput_def INTERNAL_FIELDS_def firstOfType_def pick_def optProp_def)
  from createRun_without_wait [OF 1, of None 0 "JString ''run_1''"] show ?thesis
    by (simp add: 2 world0_def hostOfStatuses_def apiOutcome_def)
qed

end
